theory Spec2Isabelle
  imports Main
begin

section \<open>The health reporter of the agent (lib/health-reporter.js)\<close>

text \<open>
  The reporter keeps one status code, writes it with two timestamps to a file on every
  tick of a repeating timer, and writes a last record when it is stopped. Everything it
  calls on the platform (the logger, the clock, the timers, the file system) is kept in
  a record \<open>world\<close> that every operation takes and returns: a call of the logger adds
  an entry to \<open>logs\<close>, a call of \<^verbatim>\<open>fs.writeFile\<close> adds a request to
  \<open>writes\<close>, and so on. JavaScript's \<^verbatim>\<open>undefined\<close> is \<open>None\<close>.

  What the platform does with a request is not part of the reporter: a write is recorded
  with the arguments \<^verbatim>\<open>fs.writeFile\<close> is called with, and the completion of a
  write is an event of its own that runs the callback the reporter passed. The reporter
  has no \<^verbatim>\<open>throw\<close> and no loop; each of its methods is a total function here.
  Strings are compared and concatenated only, so a string is a list of characters.
\<close>

subsection \<open>JavaScript values\<close>

text \<open>
  Numbers. A JavaScript number is a double. On the integers up to \<open>2^53\<close> in magnitude
  (\<open>safe\<close>) its arithmetic is that of the integers and a template literal prints its
  decimal digits: there a number is \<open>Num i\<close>, and the model computes with it. Beyond,
  the runtime rounds, and nothing is computed here: \<open>Rounded m\<close> stands for the double
  the runtime rounds the integer \<open>m\<close> to, and \<open>Times x k\<close> for the product the
  runtime computes of such a number \<open>x\<close> and \<open>k\<close>. How these print is the runtime's too and
  is taken from the world (\<open>number_text\<close>, below).
\<close>

datatype jsnum = NaN | Num int | Rounded int | Times jsnum int

definition safe :: "int \<Rightarrow> bool" where
  "safe i = (\<bar>i\<bar> \<le> 2 ^ 53)"

definition number_of_int :: "int \<Rightarrow> jsnum" where
  "number_of_int m = (if safe m then Num m else Rounded m)"

text \<open>
  \<^verbatim>\<open>x * k\<close> for an integer constant \<open>k\<close>: the product of two safe integers is
  their exact product, rounded once.
\<close>

fun js_times :: "jsnum \<Rightarrow> int \<Rightarrow> jsnum" where
  "js_times NaN k = NaN"
| "js_times (Num a) k = (if safe a \<and> safe k then number_of_int (a * k) else Times (Num a) k)"
| "js_times (Rounded m) k = Times (Rounded m) k"
| "js_times (Times x j) k = Times (Times x j) k"

definition digit_char :: "nat \<Rightarrow> char" where
  "digit_char d = ''0123456789'' ! (d mod 10)"

fun show_nat :: "nat \<Rightarrow> string" where
  "show_nat n = (if n < 10 then [digit_char n] else show_nat (n div 10) @ [digit_char n])"

declare show_nat.simps [simp del]

text \<open>
  A number in a template literal: \<open>txt\<close> is the runtime's printing of the numbers
  that are not safe integers. (The sign of a zero is not kept: a template literal prints
  \<open>0\<close> for either.)
\<close>

definition show_jsnum :: "(jsnum \<Rightarrow> string) \<Rightarrow> jsnum \<Rightarrow> string" where
  "show_jsnum txt x =
     (case x of
        NaN \<Rightarrow> ''NaN''
      | Num i \<Rightarrow>
          if safe i then (if i < 0 then ''-'' @ show_nat (nat (- i)) else show_nat (nat i))
          else txt x
      | _ \<Rightarrow> txt x)"

text \<open>How a template literal renders a value that may be \<^verbatim>\<open>undefined\<close>.\<close>

fun template_str :: "string option \<Rightarrow> string" where
  "template_str None = ''undefined''"
| "template_str (Some s) = s"

fun template_num :: "nat option \<Rightarrow> string" where
  "template_num None = ''undefined''"
| "template_num (Some n) = show_nat n"

definition template_bool :: "bool \<Rightarrow> string" where
  "template_bool b = (if b then ''true'' else ''false'')"

text \<open>
  \<^verbatim>\<open>parseInt(s, 10)\<close>. It examines the characters of \<open>s\<close>, so \<open>s\<close> is the list
  of its UTF-16 code units here (\<open>units\<close> gives those of an ASCII string). Leading white
  space and line terminators are skipped (JavaScript's \<^verbatim>\<open>WhiteSpace\<close> and
  \<^verbatim>\<open>LineTerminator\<close>: TAB, LF, VT, FF, CR, SP, NBSP, U+1680, U+2000 to U+200A,
  U+2028, U+2029, U+202F, U+205F, U+3000, U+FEFF), one sign is read, and the longest run
  of decimal digits that follows is the value; with no digit the result is
  \<^verbatim>\<open>NaN\<close>.
\<close>

definition units :: "string \<Rightarrow> nat list" where
  "units s = map of_char s"

definition isWhiteSpace :: "nat \<Rightarrow> bool" where
  "isWhiteSpace c =
     (c \<in> set [0x09, 0x0A, 0x0B, 0x0C, 0x0D, 0x20, 0xA0, 0x1680, 0x2028, 0x2029, 0x202F,
                0x205F, 0x3000, 0xFEFF] \<or>
      (0x2000 \<le> c \<and> c \<le> 0x200A))"

definition isDigit :: "nat \<Rightarrow> bool" where
  "isDigit c = (0x30 \<le> c \<and> c \<le> 0x39)"

definition digitValue :: "nat \<Rightarrow> nat" where
  "digitValue c = c - 0x30"

definition decimalValue :: "nat list \<Rightarrow> nat" where
  "decimalValue ds = foldl (\<lambda>a c. 10 * a + digitValue c) 0 ds"

definition parseInt10 :: "nat list \<Rightarrow> jsnum" where
  "parseInt10 s =
     (let t = dropWhile isWhiteSpace s;
          neg = (t \<noteq> [] \<and> hd t = 0x2D);
          u = (if t \<noteq> [] \<and> (hd t = 0x2D \<or> hd t = 0x2B) then tl t else t);
          z = takeWhile isDigit u
      in if z = [] then NaN
         else number_of_int ((if neg then - 1 else 1) * int (decimalValue z)))"

text \<open>\<^verbatim>\<open>Array.prototype.join\<close> and \<^verbatim>\<open>String.prototype.split\<close> on one separator character.\<close>

fun join_with :: "string \<Rightarrow> string list \<Rightarrow> string" where
  "join_with sep [] = []"
| "join_with sep [x] = x"
| "join_with sep (x # y # ys) = x @ sep @ join_with sep (y # ys)"

fun split_on :: "char \<Rightarrow> string \<Rightarrow> string list" where
  "split_on c [] = [[]]"
| "split_on c (x # xs) =
     (if x = c then [] # split_on c xs
      else (case split_on c xs of [] \<Rightarrow> [[x]] | s # ss \<Rightarrow> (x # s) # ss))"

text \<open>\<^verbatim>\<open>s.replaceAll('-', '')\<close>.\<close>

definition replaceAll_dash :: "string \<Rightarrow> string" where
  "replaceAll_dash s = filter (\<lambda>c. c \<noteq> CHR ''-'') s"

subsection \<open>\<^verbatim>\<open>path.join\<close> (POSIX)\<close>

text \<open>
  \<^verbatim>\<open>path.join(a, b)\<close> joins the arguments that are not empty with a slash and
  normalises the result: empty segments and \<^verbatim>\<open>.\<close> are dropped, \<^verbatim>\<open>..\<close> removes
  the segment before it (and is kept at the start of a relative path).
\<close>

definition normalize_step :: "bool \<Rightarrow> string list \<Rightarrow> string \<Rightarrow> string list" where
  "normalize_step allowAboveRoot res seg =
     (if seg = [] \<or> seg = ''.'' then res
      else if seg = ''..'' then
        (if res \<noteq> [] \<and> last res \<noteq> ''..'' then butlast res
         else if allowAboveRoot then res @ [''..''] else res)
      else res @ [seg])"

definition normalizeString :: "string \<Rightarrow> bool \<Rightarrow> string" where
  "normalizeString p allowAboveRoot =
     join_with ''/'' (foldl (normalize_step allowAboveRoot) [] (split_on CHR ''/'' p))"

definition normalize :: "string \<Rightarrow> string" where
  "normalize p =
     (if p = [] then ''.''
      else
        let isAbsolute = (hd p = CHR ''/'');
            trailingSeparator = (last p = CHR ''/'');
            q = normalizeString p (\<not> isAbsolute)
        in if q = [] then (if isAbsolute then ''/'' else if trailingSeparator then ''./'' else ''.'')
           else (if isAbsolute then ''/'' else []) @ q @ (if trailingSeparator then ''/'' else []))"

definition path_join :: "string \<Rightarrow> string \<Rightarrow> string" where
  "path_join a b =
     (let parts = filter (\<lambda>s. s \<noteq> []) [a, b]
      in if parts = [] then ''.'' else normalize (join_with ''/'' parts))"

text \<open>The file name of a path: what follows its last slash.\<close>

definition file_name :: "string \<Rightarrow> string" where
  "file_name p = last (split_on CHR ''/'' p)"

subsection \<open>The platform\<close>

datatype level = Info | Debug | Warn | Error

record timeout =
  timer_id :: nat
  delay :: jsnum
  hasRef :: bool

record write_request =
  w_file :: "string option"
  w_data :: string
  w_encoding :: string

text \<open>
  \<open>hrtime w k\<close> is what the \<open>k\<close>-th evaluation of
  \<^verbatim>\<open>Number(process.hrtime.bigint())\<close> returns (a count of nanoseconds, held exactly
  by a number as long as it is below \<open>2^53\<close>); \<open>reads\<close> counts the evaluations so
  far. \<open>timers\<close> are the repeating timers that are scheduled and not cancelled,
  \<open>logs\<close> the calls of the logger by level, \<open>writes\<close> the calls of
  \<^verbatim>\<open>fs.writeFile\<close>, each list in the order of the calls. \<open>number_text\<close> is
  how the runtime prints the numbers that are not safe integers.
\<close>

record world =
  hrtime :: "nat \<Rightarrow> nat"
  reads :: nat
  next_timer :: nat
  timers :: "timeout list"
  logs :: "(level \<times> string) list"
  writes :: "write_request list"
  number_text :: "jsnum \<Rightarrow> string"

definition logger :: "level \<Rightarrow> string \<Rightarrow> world \<Rightarrow> world" where
  "logger l msg w = w\<lparr>logs := logs w @ [(l, msg)]\<rparr>"

definition hrtime_bigint :: "world \<Rightarrow> nat \<times> world" where
  "hrtime_bigint w = (hrtime w (reads w), w\<lparr>reads := Suc (reads w)\<rparr>)"

definition setInterval :: "jsnum \<Rightarrow> world \<Rightarrow> nat \<times> world" where
  "setInterval ms w =
     (next_timer w,
      w\<lparr>next_timer := Suc (next_timer w),
        timers := timers w @ [\<lparr>timer_id = next_timer w, delay = ms, hasRef = True\<rparr>]\<rparr>)"

definition unref :: "nat \<Rightarrow> world \<Rightarrow> world" where
  "unref h w =
     w\<lparr>timers := map (\<lambda>t. if timer_id t = h then t\<lparr>hasRef := False\<rparr> else t) (timers w)\<rparr>"

fun clearInterval :: "nat option \<Rightarrow> world \<Rightarrow> world" where
  "clearInterval None w = w"
| "clearInterval (Some h) w = w\<lparr>timers := filter (\<lambda>t. timer_id t \<noteq> h) (timers w)\<rparr>"

definition fs_writeFile :: "string option \<Rightarrow> string \<Rightarrow> string \<Rightarrow> world \<Rightarrow> world" where
  "fs_writeFile f d enc w = w\<lparr>writes := writes w @ [\<lparr>w_file = f, w_data = d, w_encoding = enc\<rparr>]\<rparr>"

subsection \<open>The status codes\<close>

definition VALID_CODES :: "(string \<times> string) list" where
  "VALID_CODES =
     [(''NR-APM-000'', ''Healthy.''),
      (''NR-APM-001'', ''Invalid license key.''),
      (''NR-APM-002'', ''License key missing.''),
      (''NR-APM-003'', ''Forced disconnect received from New Relic.''),
      (''NR-APM-004'', ''HTTP error communicating with New Relic.''),
      (''NR-APM-005'', ''Missing application name in agent configuration.''),
      (''NR-APM-006'', ''The maximum number of configured app names is exceeded.''),
      (''NR-APM-007'', ''HTTP proxy is misconfigured.''),
      (''NR-APM-008'', ''Agent is disabled via configuration.''),
      (''NR-APM-009'', ''Failed to connect to the New Relic data collector.''),
      (''NR-APM-010'', ''Agent config could not be parsed.''),
      (''NR-APM-099'', ''Agent has shutdown.'')]"

definition VALID_CODES_get :: "string \<Rightarrow> string option" where
  "VALID_CODES_get c = map_of VALID_CODES c"

definition VALID_CODES_has :: "string \<Rightarrow> bool" where
  "VALID_CODES_has c = (VALID_CODES_get c \<noteq> None)"

definition STATUS_HEALTHY :: string where
  "STATUS_HEALTHY = ''NR-APM-000''"

definition STATUS_BACKEND_ERROR :: string where
  "STATUS_BACKEND_ERROR = ''NR-APM-004''"

definition STATUS_AGENT_SHUTDOWN :: string where
  "STATUS_AGENT_SHUTDOWN = ''NR-APM-099''"

subsection \<open>The reporter\<close>

text \<open>
  The private fields of the class. \<open>interval\<close> is the handle of the timer,
  \<open>destFile\<close> the path written to, \<open>startTime\<close> the clock reading taken by the
  constructor; the three stay \<open>None\<close> when the constructor returns early.
\<close>

record reporter =
  status :: string
  interval :: "nat option"
  destFile :: "string option"
  startTime :: "nat option"

text \<open>
  The three environment variables the constructor reads
  (\<^verbatim>\<open>NEW_RELIC_SUPERAGENT_FLEET_ID\<close>,
  \<^verbatim>\<open>NEW_RELIC_SUPERAGENT_HEALTH_DELIVERY_LOCATION\<close>,
  \<^verbatim>\<open>NEW_RELIC_SUPERAGENT_HEALTH_FREQUENCY\<close>). A value of
  \<^verbatim>\<open>process.env\<close> is a string or \<^verbatim>\<open>undefined\<close>. The first two are
  only tested and concatenated; the third is read by \<^verbatim>\<open>parseInt\<close> and is kept
  as the list of its code units.
\<close>

record env =
  FLEET_ID :: "string option"
  HEALTH_DELIVERY_LOCATION :: "string option"
  HEALTH_FREQUENCY :: "nat list option"

text \<open>
  \<^verbatim>\<open>writeStatus\<close>: the five lines of the record, joined by newlines, and the
  call of \<^verbatim>\<open>fs.writeFile\<close> with them. Both callers pass \<^verbatim>\<open>healthy\<close>, so
  its default is never taken. The callbacks are \<open>healthCheck_callback\<close> and
  \<open>stop_callback\<close> below.
\<close>

definition status_yaml :: "bool \<Rightarrow> string \<Rightarrow> string option \<Rightarrow> nat option \<Rightarrow> nat \<Rightarrow> string" where
  "status_yaml healthy code msg start currentTime =
     join_with [CHR 0x0A]
       [''healthy: '' @ template_bool healthy,
        ''status: '' @ [CHR 0x27] @ template_str msg @ [CHR 0x27],
        ''last_error: '' @ code,
        ''start_time_unix_nano: '' @ template_num start,
        ''status_time_unix_nano: '' @ show_nat currentTime]"

definition writeStatus ::
  "string option \<Rightarrow> bool \<Rightarrow> string \<Rightarrow> string option \<Rightarrow> nat option \<Rightarrow> world \<Rightarrow> world" where
  "writeStatus f healthy code msg start w =
     (let (currentTime, w1) = hrtime_bigint w
      in fs_writeFile f (status_yaml healthy code msg start currentTime) ''utf8'' w1)"

text \<open>
  The value \<^verbatim>\<open>!fleetId\<close> of an environment variable: true when it is unset or the
  empty string.
\<close>

fun falsy :: "string option \<Rightarrow> bool" where
  "falsy None = True"
| "falsy (Some s) = (s = [])"

definition new_reporter :: reporter where
  "new_reporter = \<lparr>status = STATUS_HEALTHY, interval = None, destFile = None, startTime = None\<rparr>"

text \<open>
  The constructor. \<open>randomUUID\<close> is the string \<^verbatim>\<open>crypto.randomUUID()\<close> returns to
  this call.
\<close>

definition construct :: "env \<Rightarrow> string \<Rightarrow> world \<Rightarrow> reporter \<times> world" where
  "construct e randomUUID w =
     (if falsy (FLEET_ID e) then
        (new_reporter, logger Info ''new relic control not present, skipping health reporting'' w)
      else case HEALTH_DELIVERY_LOCATION e of
        None \<Rightarrow>
          (new_reporter,
           logger Error ''health check output directory not provided, skipping health reporting'' w)
      | Some outDir \<Rightarrow>
          let (checkInterval, w1) =
                (case HEALTH_FREQUENCY e of
                   None \<Rightarrow>
                     (Num 5000,
                      logger Debug ''health check interval not available, using default 5 seconds'' w)
                 | Some s \<Rightarrow> (js_times (parseInt10 s) 1000, w));
              (start, w2) = hrtime_bigint w1;
              uuid = replaceAll_dash randomUUID;
              dest = path_join outDir (''health-'' @ uuid @ ''.yaml'');
              w3 = logger Info
                     (''new relic control is present, writing health on interval ''
                        @ show_jsnum (number_text w2) checkInterval
                        @ '' milliseconds to '' @ dest) w2;
              (h, w4) = setInterval checkInterval w3;
              w5 = unref h w4;
              w6 = logger Info ''health reporter initialized'' w5
          in (new_reporter\<lparr>startTime := Some start, destFile := Some dest, interval := Some h\<rparr>,
              w6))"

text \<open>The tick of the timer, and the callback of its write (\<open>err\<close> is the error's message).\<close>

definition healthCheck :: "reporter \<Rightarrow> world \<Rightarrow> reporter \<times> world" where
  "healthCheck r w =
     (let healthy = (status r = STATUS_HEALTHY)
      in (r, writeStatus (destFile r) healthy (status r) (VALID_CODES_get (status r))
               (startTime r) w))"

fun healthCheck_callback :: "string option \<Rightarrow> world \<Rightarrow> world" where
  "healthCheck_callback None w = w"
| "healthCheck_callback (Some err) w =
     logger Error (''error when writing out health status: '' @ err) w"

definition setStatus :: "string \<Rightarrow> reporter \<Rightarrow> world \<Rightarrow> reporter \<times> world" where
  "setStatus s r w =
     (if VALID_CODES_has s = False then
        (r, logger Warn (''invalid health reporter status provided: '' @ s) w)
      else if s = STATUS_AGENT_SHUTDOWN \<and> status r \<noteq> STATUS_HEALTHY then
        (r, logger Info
              (''not setting shutdown health status due to current status code: '' @ status r) w)
      else (r\<lparr>status := s\<rparr>, w))"

definition stop :: "reporter \<Rightarrow> world \<Rightarrow> reporter \<times> world" where
  "stop r w =
     (let w1 = clearInterval (interval r) w;
          healthy = (status r = STATUS_HEALTHY);
          code = status r;
          msg = VALID_CODES_get code;
          (code, msg) =
            (if healthy = True
             then (STATUS_AGENT_SHUTDOWN, VALID_CODES_get STATUS_AGENT_SHUTDOWN)
             else (code, msg))
      in (r, writeStatus (destFile r) healthy code msg (startTime r) w1))"

fun stop_callback :: "string option \<Rightarrow> world \<Rightarrow> world" where
  "stop_callback None w = w"
| "stop_callback (Some err) w =
     logger Error (''error when writing out health status during shutdown: '' @ err) w"

subsection \<open>Runs\<close>

text \<open>
  What happens to a reporter after its construction: calls of its two methods by the
  agent, ticks of its timer, and the callbacks of the writes it has issued.
\<close>

datatype op =
    SetStatus string
  | Tick
  | TickWritten "string option"
  | Stop
  | StopWritten "string option"

fun step :: "reporter \<times> world \<Rightarrow> op \<Rightarrow> reporter \<times> world" where
  "step (r, w) (SetStatus s) = setStatus s r w"
| "step (r, w) Tick = healthCheck r w"
| "step (r, w) (TickWritten err) = (r, healthCheck_callback err w)"
| "step (r, w) Stop = stop r w"
| "step (r, w) (StopWritten err) = (r, stop_callback err w)"

definition run :: "op list \<Rightarrow> reporter \<times> world \<Rightarrow> reporter \<times> world" where
  "run ops s = foldl step s ops"

text \<open>
  A world in which nothing has happened yet, with the clock \<open>clk\<close> and the printing
  \<open>txt\<close> of the numbers beyond the safe integers.
\<close>

definition world0 :: "(nat \<Rightarrow> nat) \<Rightarrow> (jsnum \<Rightarrow> string) \<Rightarrow> world" where
  "world0 clk txt =
     \<lparr>hrtime = clk, reads = 0, next_timer = 0, timers = [], logs = [], writes = [],
      number_text = txt\<rparr>"

subsection \<open>What the written records look like\<close>

text \<open>
  The lines of a written record, and the requests a world holds beyond those of an
  earlier world.
\<close>

definition yaml_lines :: "write_request \<Rightarrow> string list" where
  "yaml_lines q = split_on (CHR 0x0A) (w_data q)"

definition writes_since :: "world \<Rightarrow> world \<Rightarrow> write_request list" where
  "writes_since w0 w = drop (length (writes w0)) (writes w)"

text \<open>
  The regular expression \<^verbatim>\<open>health-[0-9a-f]{32}\.yaml\<close> on a whole file name, and
  the format of the strings \<^verbatim>\<open>crypto.randomUUID()\<close> returns: groups of 8, 4, 4, 4
  and 12 lower-case hexadecimal digits with a dash between them.
\<close>

definition isHexDigit :: "char \<Rightarrow> bool" where
  "isHexDigit c = (c \<in> set ''0123456789abcdef'')"

definition health_file_name :: "string \<Rightarrow> bool" where
  "health_file_name n =
     (length n = 44 \<and> take 7 n = ''health-'' \<and> list_all isHexDigit (take 32 (drop 7 n)) \<and>
      drop 39 n = ''.yaml'')"

fun uuid_groups :: "nat list \<Rightarrow> string \<Rightarrow> bool" where
  "uuid_groups [] s = (s = [])"
| "uuid_groups [n] s = (length s = n \<and> list_all isHexDigit s)"
| "uuid_groups (n # m # ns) s =
     (n < length s \<and> list_all isHexDigit (take n s) \<and> s ! n = CHR ''-'' \<and>
      uuid_groups (m # ns) (drop (Suc n) s))"

definition is_uuid :: "string \<Rightarrow> bool" where
  "is_uuid u = uuid_groups [8, 4, 4, 4, 12] u"

text \<open>
  The fixtures of the repository's tests: the three variables set, a clock that counts
  its evaluations from one, and a UUID as \<^verbatim>\<open>crypto.randomUUID()\<close> formats it.
  No number beyond the safe integers is printed in the tests; \<open>number_text\<close> is the
  empty text there.
\<close>

definition test_env :: env where
  "test_env = \<lparr>FLEET_ID = Some ''42'', HEALTH_DELIVERY_LOCATION = Some ''/tmp'',
                HEALTH_FREQUENCY = Some (units ''1'')\<rparr>"

definition test_uuid :: string where
  "test_uuid = ''0f8fad5b-d9cb-469f-a165-70867728950e''"

definition test_world :: world where
  "test_world = world0 Suc (\<lambda>x. [])"

text \<open>The reporter and the world the constructor returns for these fixtures.\<close>

definition test_reporter :: reporter where
  "test_reporter =
     \<lparr>status = ''NR-APM-000'', interval = Some 0,
      destFile = Some ''/tmp/health-0f8fad5bd9cb469fa16570867728950e.yaml'',
      startTime = Some 1\<rparr>"

definition test_started :: world where
  "test_started =
     \<lparr>hrtime = Suc, reads = 1, next_timer = 1,
      timers = [\<lparr>timer_id = 0, delay = Num 1000, hasRef = False\<rparr>],
      logs = [(Info, ''new relic control is present, writing health on interval 1000 milliseconds to /tmp/health-0f8fad5bd9cb469fa16570867728950e.yaml''),
              (Info, ''health reporter initialized'')],
      writes = [], number_text = (\<lambda>x. [])\<rparr>"

section \<open>Strings and paths\<close>

lemma split_on_notin: "c \<notin> set s \<Longrightarrow> split_on c s = [s]"
  by (induction s) auto

lemma split_on_nonempty: "split_on c s \<noteq> []"
  by (induction s) (auto split: list.splits)

lemma split_on_append:
  "split_on c (a @ c # b) = split_on c a @ split_on c b"
  by (induction a) (auto split: list.splits simp: split_on_nonempty)

lemma split_on_cons_notin:
  "c \<notin> set a \<Longrightarrow> split_on c (a @ c # b) = a # split_on c b"
  by (simp add: split_on_append split_on_notin)

lemma split_on_join:
  "ls \<noteq> [] \<Longrightarrow> \<forall>l \<in> set ls. c \<notin> set l \<Longrightarrow> split_on c (join_with [c] ls) = ls"
proof (induction ls)
  case Nil
  then show ?case by simp
next
  case (Cons x xs)
  show ?case
  proof (cases xs)
    case Nil
    with Cons.prems show ?thesis by (simp add: split_on_notin)
  next
    case (Cons y ys)
    with Cons.IH Cons.prems show ?thesis by (simp add: split_on_cons_notin)
  qed
qed

lemma digit_char_isDigit: "digit_char d \<in> set ''0123456789''"
  unfolding digit_char_def by (rule nth_mem) simp

lemma show_nat_digits: "set (show_nat n) \<subseteq> set ''0123456789''"
proof (induction n rule: show_nat.induct)
  case (1 n)
  show ?case
  proof (cases "n < 10")
    case True
    then show ?thesis using digit_char_isDigit [of n] by (subst show_nat.simps) simp
  next
    case False
    then show ?thesis using 1 digit_char_isDigit [of n] by (subst show_nat.simps) simp
  qed
qed

lemma show_nat_no_newline: "CHR 0x0A \<notin> set (show_nat n)"
  using show_nat_digits [of n] by auto

lemma dash_not_hex: "isHexDigit c \<Longrightarrow> c \<noteq> CHR ''-''"
  by (auto simp: isHexDigit_def)

lemma slash_not_hex: "isHexDigit c \<Longrightarrow> c \<noteq> CHR ''/''"
  by (auto simp: isHexDigit_def)

lemma replaceAll_dash_hex: "list_all isHexDigit s \<Longrightarrow> replaceAll_dash s = s"
  unfolding replaceAll_dash_def
  by (rule filter_True) (simp add: list_all_iff dash_not_hex)

lemma replaceAll_dash_groups:
  "uuid_groups ns s \<Longrightarrow>
   list_all isHexDigit (replaceAll_dash s) \<and> length (replaceAll_dash s) = sum_list ns"
proof (induction ns s rule: uuid_groups.induct)
  case (1 s)
  then show ?case by (simp add: replaceAll_dash_def)
next
  case (2 n s)
  then show ?case by (simp add: replaceAll_dash_hex)
next
  case (3 n m ns s)
  from "3.prems" have len: "n < length s" and hex: "list_all isHexDigit (take n s)"
    and dash: "s ! n = CHR ''-''" and rest: "uuid_groups (m # ns) (drop (Suc n) s)"
    by simp_all
  have s: "s = take n s @ s ! n # drop (Suc n) s"
    using len by (rule id_take_nth_drop)
  have "replaceAll_dash s = replaceAll_dash (take n s @ s ! n # drop (Suc n) s)"
    using s by simp
  also have "\<dots> = take n s @ replaceAll_dash (drop (Suc n) s)"
    using dash replaceAll_dash_hex [OF hex]
    by (simp add: replaceAll_dash_def del: append_take_drop_id)
  finally have eq: "replaceAll_dash s = take n s @ replaceAll_dash (drop (Suc n) s)" .
  from "3.IH" [OF rest] hex len show ?case
    by (simp add: eq)
qed

lemma replaceAll_dash_uuid:
  "is_uuid u \<Longrightarrow> list_all isHexDigit (replaceAll_dash u) \<and> length (replaceAll_dash u) = 32"
  unfolding is_uuid_def by (drule replaceAll_dash_groups) simp

lemma health_file_name_hex:
  "list_all isHexDigit h \<Longrightarrow> length h = 32 \<Longrightarrow> health_file_name (''health-'' @ h @ ''.yaml'')"
  by (simp add: health_file_name_def)

lemma last_split_on_append: "last (split_on c (a @ c # b)) = last (split_on c b)"
  by (simp add: split_on_append split_on_nonempty)

lemma join_with_snoc:
  "join_with sep (ys @ [n]) = (if ys = [] then n else join_with sep ys @ sep @ n)"
  by (induction sep ys rule: join_with.induct) auto

lemma last_split_on_join:
  "c \<notin> set n \<Longrightarrow> last (split_on c (join_with [c] (ys @ [n]))) = n"
  by (simp add: join_with_snoc last_split_on_append split_on_notin)

lemma join_with_snoc_nonempty: "n \<noteq> [] \<Longrightarrow> join_with sep (ys @ [n]) \<noteq> []"
  by (simp add: join_with_snoc)

lemma normalize_step_plain:
  "n \<noteq> [] \<Longrightarrow> n \<noteq> ''.'' \<Longrightarrow> n \<noteq> ''..'' \<Longrightarrow> normalize_step a res n = res @ [n]"
  by (simp add: normalize_step_def)

lemma file_name_normalize:
  assumes "split_on CHR ''/'' p = xs @ [n]" and "CHR ''/'' \<notin> set n"
    and "n \<noteq> []" and "n \<noteq> ''.''" and "n \<noteq> ''..''"
  shows "file_name (normalize p) = n"
proof -
  let ?q = "\<lambda>a. join_with ''/'' (foldl (normalize_step a) [] xs @ [n])"
  have q: "normalizeString p a = ?q a" for a
    using assms by (simp add: normalizeString_def normalize_step_plain)
  have ne: "?q a \<noteq> []" for a
    using assms(3) by (rule join_with_snoc_nonempty)
  have p_ne: "p \<noteq> []"
    using assms(1,3) by (cases p) auto
  have trail: "last p \<noteq> CHR ''/''"
  proof
    assume "last p = CHR ''/''"
    with p_ne have "p = butlast p @ CHR ''/'' # []"
      by (metis append_butlast_last_id)
    then have "split_on CHR ''/'' p = split_on CHR ''/'' (butlast p) @ [[]]"
      by (metis split_on_append split_on.simps(1))
    with assms(1,3) show False by simp
  qed
  have fn: "file_name (?q a) = n" for a
    unfolding file_name_def using assms(2) by (rule last_split_on_join)
  have fn': "file_name (''/'' @ ?q a) = n" for a
    unfolding file_name_def using last_split_on_append [of "CHR ''/''" "[]" "?q a"] fn [of a]
    by (simp add: file_name_def)
  show ?thesis
    using p_ne trail ne fn fn' by (simp add: normalize_def Let_def q)
qed

lemma file_name_path_join:
  assumes "CHR ''/'' \<notin> set n" and "n \<noteq> []" and "n \<noteq> ''.''" and "n \<noteq> ''..''"
  shows "file_name (path_join d n) = n"
proof (cases "d = []")
  case True
  have "split_on CHR ''/'' n = [] @ [n]"
    using assms(1) by (simp add: split_on_notin)
  from file_name_normalize [OF this assms] True assms(2) show ?thesis
    by (simp add: path_join_def)
next
  case False
  have "split_on CHR ''/'' (d @ ''/'' @ n) = split_on CHR ''/'' d @ [n]"
    using assms(1) by (simp add: split_on_append split_on_notin)
  from file_name_normalize [OF this assms] False assms(2) show ?thesis
    by (simp add: path_join_def)
qed

lemma normalize_plain:
  assumes "CHR ''/'' \<notin> set n" and "n \<noteq> []" and "n \<noteq> ''.''" and "n \<noteq> ''..''"
  shows "normalize n = n"
proof -
  have "hd n \<in> set n" "last n \<in> set n"
    using assms(2) by simp_all
  with assms(1) have "hd n \<noteq> CHR ''/''" "last n \<noteq> CHR ''/''"
    by auto
  with assms show ?thesis
    by (simp add: normalize_def normalizeString_def split_on_notin normalize_step_plain Let_def)
qed

lemma path_join_empty_dir:
  assumes "CHR ''/'' \<notin> set n" and "n \<noteq> []" and "n \<noteq> ''.''" and "n \<noteq> ''..''"
  shows "path_join [] n = n"
  using normalize_plain [OF assms] assms(2) by (simp add: path_join_def)

lemma health_name_facts:
  assumes "is_uuid u"
  shows "health_file_name (''health-'' @ replaceAll_dash u @ ''.yaml'')"
    and "CHR ''/'' \<notin> set (''health-'' @ replaceAll_dash u @ ''.yaml'')"
    and "''health-'' @ replaceAll_dash u @ ''.yaml'' \<noteq> []"
    and "''health-'' @ replaceAll_dash u @ ''.yaml'' \<noteq> ''.''"
    and "''health-'' @ replaceAll_dash u @ ''.yaml'' \<noteq> ''..''"
proof -
  from replaceAll_dash_uuid [OF assms]
  have hex: "list_all isHexDigit (replaceAll_dash u)" and len: "length (replaceAll_dash u) = 32"
    by simp_all
  show "health_file_name (''health-'' @ replaceAll_dash u @ ''.yaml'')"
    using hex len by (rule health_file_name_hex)
  show "CHR ''/'' \<notin> set (''health-'' @ replaceAll_dash u @ ''.yaml'')"
    using hex by (auto simp: list_all_iff dest: slash_not_hex)
qed simp_all

lemma singleton_last: "length xs = Suc 0 \<Longrightarrow> xs = [last xs]"
  by (cases xs) simp_all

lemma sorted_map_mono: "mono (f :: nat \<Rightarrow> nat) \<Longrightarrow> sorted (map f [a ..< b])"
  by (simp add: sorted_map sorted_wrt_iff_nth_less monoD)

section \<open>Numbers and \<^verbatim>\<open>parseInt\<close>\<close>

lemma show_jsnum_safe:
  "safe i \<Longrightarrow>
   show_jsnum txt (Num i) = (if i < 0 then ''-'' @ show_nat (nat (- i)) else show_nat (nat i))"
  by (simp add: show_jsnum_def)

lemma show_jsnum_NaN: "show_jsnum txt NaN = ''NaN''"
  by (simp add: show_jsnum_def)

lemma digit_cases:
  "(k::nat) < 10 \<Longrightarrow>
   k = 0 \<or> k = 1 \<or> k = 2 \<or> k = 3 \<or> k = 4 \<or> k = 5 \<or> k = 6 \<or> k = 7 \<or> k = 8 \<or> k = 9"
  by arith

lemma of_char_digit: "k < 10 \<Longrightarrow> (of_char (''0123456789'' ! k) :: nat) = 48 + k"
  by (drule digit_cases) (elim disjE; simp)

lemma of_char_digit_char: "(of_char (digit_char d) :: nat) = 48 + d mod 10"
  unfolding digit_char_def by (rule of_char_digit) simp

lemma units_show_nat:
  "units (show_nat n) = (if n < 10 then [] else units (show_nat (n div 10))) @ [48 + n mod 10]"
  by (subst show_nat.simps) (simp add: units_def of_char_digit_char)

lemma units_show_nat_nonempty: "units (show_nat n) \<noteq> []"
  by (subst units_show_nat) simp

lemma isDigit_units_show_nat: "list_all isDigit (units (show_nat n))"
proof (induction n rule: show_nat.induct)
  case (1 n)
  have "isDigit (48 + n mod 10)"
    by (simp add: isDigit_def)
  with 1 show ?case
    by (subst units_show_nat) simp
qed

lemma decimalValue_snoc: "decimalValue (ds @ [c]) = 10 * decimalValue ds + digitValue c"
  by (simp add: decimalValue_def)

lemma decimalValue_show_nat: "decimalValue (units (show_nat n)) = n"
proof (induction n rule: show_nat.induct)
  case (1 n)
  show ?case
  proof (cases "n < 10")
    case True
    then show ?thesis
      by (subst units_show_nat) (simp add: decimalValue_def digitValue_def)
  next
    case False
    with 1 show ?thesis
      by (subst units_show_nat) (simp add: decimalValue_snoc digitValue_def)
  qed
qed

lemma isDigit_not_space_or_sign:
  "isDigit c \<Longrightarrow> \<not> isWhiteSpace c \<and> c \<noteq> 0x2B \<and> c \<noteq> 0x2D"
  by (auto simp: isDigit_def isWhiteSpace_def)

lemma dropWhile_prefix:
  "list_all P ws \<Longrightarrow> ys = [] \<or> \<not> P (hd ys) \<Longrightarrow> dropWhile P (ws @ ys) = ys"
  by (cases ys) (simp_all add: list_all_iff dropWhile_append2)

lemma takeWhile_prefix:
  "list_all P ds \<Longrightarrow> ys = [] \<or> \<not> P (hd ys) \<Longrightarrow> takeWhile P (ds @ ys) = ds"
  by (cases ys) (simp_all add: list_all_iff takeWhile_append2)

text \<open>
  What \<^verbatim>\<open>parseInt\<close> reads. Every string is white space \<open>ws\<close>, an optional sign
  \<open>sg\<close>, decimal digits \<open>ds\<close> and a rest that does not go on with a digit (nor,
  when there is neither sign nor digit, with white space or a sign).
\<close>

lemma parseInt10_shape:
  assumes ws: "list_all isWhiteSpace ws"
    and sg: "sg = [] \<or> sg = [0x2B] \<or> sg = [0x2D]"
    and ds: "list_all isDigit ds"
    and rest: "rest = [] \<or> \<not> isDigit (hd rest)"
    and bare: "sg = [] \<and> ds = [] \<longrightarrow>
                 rest = [] \<or> (\<not> isWhiteSpace (hd rest) \<and> hd rest \<noteq> 0x2B \<and> hd rest \<noteq> 0x2D)"
  shows "parseInt10 (ws @ sg @ ds @ rest) =
           (if ds = [] then NaN
            else number_of_int ((if sg = [0x2D] then - 1 else 1) * int (decimalValue ds)))"
proof -
  have sp: "\<not> isWhiteSpace 0x2B" "\<not> isWhiteSpace 0x2D"
    by (simp_all add: isWhiteSpace_def)
  have hd_ds: "ds \<noteq> [] \<Longrightarrow> \<not> isWhiteSpace (hd ds) \<and> hd ds \<noteq> 0x2B \<and> hd ds \<noteq> 0x2D"
    using ds isDigit_not_space_or_sign [of "hd ds"] by (cases ds) simp_all
  have tw: "takeWhile isDigit (ds @ rest) = ds"
    using ds rest by (rule takeWhile_prefix)
  have "sg @ ds @ rest = [] \<or> \<not> isWhiteSpace (hd (sg @ ds @ rest))"
    using sg sp hd_ds bare by (cases ds) auto
  with ws have dw: "dropWhile isWhiteSpace (ws @ sg @ ds @ rest) = sg @ ds @ rest"
    by (rule dropWhile_prefix)
  from sg consider "sg = []" | "sg = [0x2B]" | "sg = [0x2D]"
    by blast
  then show ?thesis
  proof cases
    case 1
    have "ds @ rest = [] \<or> (hd (ds @ rest) \<noteq> 0x2D \<and> hd (ds @ rest) \<noteq> 0x2B)"
      using hd_ds bare 1 by (cases ds) auto
    then show ?thesis
      using dw tw 1 by (auto simp: parseInt10_def Let_def)
  next
    case 2
    then show ?thesis
      using dw tw by (simp add: parseInt10_def Let_def)
  next
    case 3
    then show ?thesis
      using dw tw by (simp add: parseInt10_def Let_def)
  qed
qed

lemma parseInt10_decimal:
  assumes "list_all isWhiteSpace ws" and "sg = [] \<or> sg = [0x2B] \<or> sg = [0x2D]"
    and "rest = [] \<or> \<not> isDigit (hd rest)" and "int n * 1000 \<le> 2 ^ 53"
  shows "js_times (parseInt10 (ws @ sg @ units (show_nat n) @ rest)) 1000 =
           Num ((if sg = [0x2D] then - 1 else 1) * int n * 1000)"
proof -
  let ?i = "(if sg = [0x2D] then - 1 else 1) * int n"
  have s1: "safe ?i" and s2: "safe (?i * 1000)"
    using assms(4) by (simp_all add: safe_def)
  have "parseInt10 (ws @ sg @ units (show_nat n) @ rest) = number_of_int ?i"
    using parseInt10_shape [OF assms(1,2) isDigit_units_show_nat assms(3), of n]
    by (simp add: units_show_nat_nonempty decimalValue_show_nat)
  with s1 s2 show ?thesis
    by (simp add: number_of_int_def safe_def)
qed

lemma parseInt10_NaN:
  assumes "list_all isWhiteSpace ws" and "sg = [] \<or> sg = [0x2B] \<or> sg = [0x2D]"
    and "rest = [] \<or> \<not> isDigit (hd rest)"
    and "sg = [] \<longrightarrow>
           rest = [] \<or> (\<not> isWhiteSpace (hd rest) \<and> hd rest \<noteq> 0x2B \<and> hd rest \<noteq> 0x2D)"
  shows "js_times (parseInt10 (ws @ sg @ rest)) 1000 = NaN"
  using parseInt10_shape [OF assms(1,2) _ assms(3), of "[]"] assms(4) by simp

section \<open>The status register\<close>

lemma VALID_CODES_has_HEALTHY: "VALID_CODES_has STATUS_HEALTHY"
  by (simp add: VALID_CODES_has_def VALID_CODES_get_def VALID_CODES_def STATUS_HEALTHY_def)

lemma VALID_CODES_has_SHUTDOWN: "VALID_CODES_has STATUS_AGENT_SHUTDOWN"
  by (simp add: VALID_CODES_has_def VALID_CODES_get_def VALID_CODES_def STATUS_AGENT_SHUTDOWN_def)

lemma status_construct: "status (fst (construct e u w)) = STATUS_HEALTHY"
  by (simp add: construct_def new_reporter_def Let_def split: option.splits prod.splits)

lemma status_setStatus:
  "VALID_CODES_has (status r) \<Longrightarrow> VALID_CODES_has (status (fst (setStatus s r w)))"
  by (simp add: setStatus_def)

lemma fst_healthCheck: "fst (healthCheck r w) = r"
  by (simp add: healthCheck_def)

lemma fst_stop: "fst (stop r w) = r"
  by (simp add: stop_def Let_def split: prod.splits)

lemma status_step:
  "VALID_CODES_has (status (fst s)) \<Longrightarrow> VALID_CODES_has (status (fst (step s x)))"
  by (cases s; cases x) (simp_all add: status_setStatus fst_healthCheck fst_stop)

lemma status_run:
  "VALID_CODES_has (status (fst s)) \<Longrightarrow> VALID_CODES_has (status (fst (run ops s)))"
  unfolding run_def by (induction ops arbitrary: s) (simp_all add: status_step)

text \<open>
  C2. \<^verbatim>\<open>setStatus\<close> called with the shutdown code: from the healthy code the
  status becomes the shutdown code (and nothing is logged); from any other code the
  status stays as it is and the call adds exactly one \<open>Info\<close> entry to the log, whose
  message ends with the code that was kept.
\<close>

theorem setStatus_shutdown:
  "(status r = STATUS_HEALTHY \<longrightarrow>
      setStatus STATUS_AGENT_SHUTDOWN r w = (r\<lparr>status := STATUS_AGENT_SHUTDOWN\<rparr>, w)) \<and>
   (status r \<noteq> STATUS_HEALTHY \<longrightarrow>
      setStatus STATUS_AGENT_SHUTDOWN r w =
        (r, w\<lparr>logs := logs w @
           [(Info, ''not setting shutdown health status due to current status code: ''
                     @ status r)]\<rparr>))"
  by (simp add: setStatus_def VALID_CODES_has_SHUTDOWN logger_def)

theorem setStatus_shutdown_witness:
  "setStatus STATUS_AGENT_SHUTDOWN (new_reporter\<lparr>status := STATUS_BACKEND_ERROR\<rparr>) test_world =
     (new_reporter\<lparr>status := ''NR-APM-004''\<rparr>,
      test_world\<lparr>logs :=
         [(Info, ''not setting shutdown health status due to current status code: NR-APM-004'')]\<rparr>)
   \<and> setStatus STATUS_AGENT_SHUTDOWN new_reporter test_world =
     (new_reporter\<lparr>status := ''NR-APM-099''\<rparr>, test_world)"
proof -
  have a: "status (new_reporter\<lparr>status := STATUS_BACKEND_ERROR\<rparr>) \<noteq> STATUS_HEALTHY"
    by (simp add: STATUS_BACKEND_ERROR_def STATUS_HEALTHY_def)
  have b: "status new_reporter = STATUS_HEALTHY"
    by (simp add: new_reporter_def)
  from setStatus_shutdown [of "new_reporter\<lparr>status := STATUS_BACKEND_ERROR\<rparr>" test_world] a
    setStatus_shutdown [of new_reporter test_world] b
  show ?thesis
    by (simp add: STATUS_BACKEND_ERROR_def STATUS_AGENT_SHUTDOWN_def test_world_def world0_def)
qed

text \<open>
  C3. A string that is not a key of the table is rejected by \<^verbatim>\<open>setStatus\<close>: the
  reporter is returned as it was, and the call adds exactly one \<open>Warn\<close> entry to the
  log, whose message ends with the rejected string. The call returns (the function has
  no other outcome). Hence the status is a key of the table after the constructor and
  after every sequence of operations that follows it.
\<close>

theorem setStatus_rejects_unknown:
  "(VALID_CODES_has s = False \<longrightarrow>
      setStatus s r w =
        (r, w\<lparr>logs := logs w @ [(Warn, ''invalid health reporter status provided: '' @ s)]\<rparr>)) \<and>
   VALID_CODES_has (status (fst (run ops (construct e u w0))))"
  by (simp add: setStatus_def logger_def status_run status_construct VALID_CODES_has_HEALTHY)

theorem setStatus_rejects_unknown_witness:
  "setStatus ''bad-code'' new_reporter test_world =
     (new_reporter,
      test_world\<lparr>logs := [(Warn, ''invalid health reporter status provided: bad-code'')]\<rparr>)
   \<and> VALID_CODES_has
       (status (fst (run [SetStatus ''bad-code'', Tick, SetStatus ''NR-APM-004'', Stop]
                      (construct test_env test_uuid test_world))))"
proof -
  have a: "VALID_CODES_has ''bad-code'' = False"
    by (simp add: VALID_CODES_has_def VALID_CODES_get_def VALID_CODES_def)
  from a setStatus_rejects_unknown [of "''bad-code''" new_reporter test_world
      "[SetStatus ''bad-code'', Tick, SetStatus ''NR-APM-004'', Stop]" test_env test_uuid test_world]
  show ?thesis
    by (simp add: test_world_def world0_def)
qed

text \<open>
  C6. A key of the table other than the shutdown code is accepted by
  \<^verbatim>\<open>setStatus\<close> whatever the reporter's state: the status becomes that code and
  the world, its log included, is left as it was.
\<close>

theorem setStatus_valid_code:
  "VALID_CODES_has s \<Longrightarrow> s \<noteq> STATUS_AGENT_SHUTDOWN \<Longrightarrow>
   setStatus s r w = (r\<lparr>status := s\<rparr>, w)"
  by (simp add: setStatus_def)

theorem setStatus_valid_code_witness:
  "setStatus STATUS_BACKEND_ERROR (new_reporter\<lparr>status := ''NR-APM-009''\<rparr>) test_world =
     (new_reporter\<lparr>status := ''NR-APM-004''\<rparr>, test_world)"
proof -
  have a: "VALID_CODES_has STATUS_BACKEND_ERROR"
    by (simp add: VALID_CODES_has_def VALID_CODES_get_def VALID_CODES_def STATUS_BACKEND_ERROR_def)
  have b: "STATUS_BACKEND_ERROR \<noteq> STATUS_AGENT_SHUTDOWN"
    by (simp add: STATUS_BACKEND_ERROR_def STATUS_AGENT_SHUTDOWN_def)
  from setStatus_valid_code [OF a b, of "new_reporter\<lparr>status := ''NR-APM-009''\<rparr>" test_world]
  show ?thesis
    by (simp add: STATUS_BACKEND_ERROR_def)
qed

section \<open>What the operations do to the world\<close>

lemma template_num_no_newline: "CHR 0x0A \<notin> set (template_num st)"
  by (cases st) (simp_all add: show_nat_no_newline)

lemma VALID_CODES_no_newline:
  "VALID_CODES_get c = Some m \<Longrightarrow> CHR 0x0A \<notin> set c \<and> CHR 0x0A \<notin> set m"
  unfolding VALID_CODES_get_def VALID_CODES_def
  by (auto split: if_splits)

lemma VALID_CODES_get_SHUTDOWN: "VALID_CODES_get STATUS_AGENT_SHUTDOWN = Some ''Agent has shutdown.''"
  by (simp add: VALID_CODES_get_def VALID_CODES_def STATUS_AGENT_SHUTDOWN_def)

lemma VALID_CODES_get_HEALTHY: "VALID_CODES_get STATUS_HEALTHY = Some ''Healthy.''"
  by (simp add: VALID_CODES_get_def VALID_CODES_def STATUS_HEALTHY_def)

lemma VALID_CODES_get_BACKEND: 
  "VALID_CODES_get ''NR-APM-004'' = Some ''HTTP error communicating with New Relic.''"
  by (simp add: VALID_CODES_get_def VALID_CODES_def)

lemma split_on_status_yaml:
  assumes "CHR 0x0A \<notin> set c" and "CHR 0x0A \<notin> set (template_str m)"
  shows "split_on (CHR 0x0A) (status_yaml h c m st t) =
     [''healthy: '' @ template_bool h,
      ''status: '' @ [CHR 0x27] @ template_str m @ [CHR 0x27],
      ''last_error: '' @ c,
      ''start_time_unix_nano: '' @ template_num st,
      ''status_time_unix_nano: '' @ show_nat t]"
  unfolding status_yaml_def using assms
  by (intro split_on_join)
     (simp_all add: template_bool_def show_nat_no_newline template_num_no_newline)

lemma writeStatus_eq:
  "writeStatus f h c m st w =
     w\<lparr>reads := Suc (reads w),
       writes := writes w @
         [\<lparr>w_file = f, w_data = status_yaml h c m st (hrtime w (reads w)), w_encoding = ''utf8''\<rparr>]\<rparr>"
  by (simp add: writeStatus_def hrtime_bigint_def fs_writeFile_def)

lemma healthCheck_eq:
  "healthCheck r w =
     (r, w\<lparr>reads := Suc (reads w),
           writes := writes w @
             [\<lparr>w_file = destFile r,
               w_data = status_yaml (status r = STATUS_HEALTHY) (status r)
                          (VALID_CODES_get (status r)) (startTime r) (hrtime w (reads w)),
               w_encoding = ''utf8''\<rparr>]\<rparr>)"
  by (simp add: healthCheck_def writeStatus_eq)

lemma stop_eq:
  "stop r w =
     (r, writeStatus (destFile r) (status r = STATUS_HEALTHY)
           (if status r = STATUS_HEALTHY then STATUS_AGENT_SHUTDOWN else status r)
           (if status r = STATUS_HEALTHY then Some ''Agent has shutdown.''
            else VALID_CODES_get (status r))
           (startTime r) (clearInterval (interval r) w))"
  by (simp add: stop_def Let_def VALID_CODES_get_SHUTDOWN)

lemma clearInterval_frame:
  "hrtime (clearInterval h w) = hrtime w" "reads (clearInterval h w) = reads w"
  "writes (clearInterval h w) = writes w" "logs (clearInterval h w) = logs w"
  "timers (clearInterval h w) = filter (\<lambda>t. Some (timer_id t) \<noteq> h) (timers w)"
  by (cases h; simp)+

lemma frame_setStatus:
  "interval (fst (setStatus s r w)) = interval r"
  "destFile (fst (setStatus s r w)) = destFile r"
  "startTime (fst (setStatus s r w)) = startTime r"
  "hrtime (snd (setStatus s r w)) = hrtime w"
  "reads (snd (setStatus s r w)) = reads w"
  "writes (snd (setStatus s r w)) = writes w"
  "timers (snd (setStatus s r w)) = timers w"
  by (simp_all add: setStatus_def logger_def)

lemma frame_callbacks:
  "hrtime (healthCheck_callback err w) = hrtime w"
  "reads (healthCheck_callback err w) = reads w"
  "writes (healthCheck_callback err w) = writes w"
  "hrtime (stop_callback err w) = hrtime w"
  "reads (stop_callback err w) = reads w"
  "writes (stop_callback err w) = writes w"
  by (cases err; simp add: logger_def)+

lemma frame_step:
  "interval (fst (step s x)) = interval (fst s)"
  "destFile (fst (step s x)) = destFile (fst s)"
  "startTime (fst (step s x)) = startTime (fst s)"
  "hrtime (snd (step s x)) = hrtime (snd s)"
  by (cases s; cases x; simp add: frame_setStatus fst_healthCheck fst_stop frame_callbacks
        healthCheck_eq stop_eq writeStatus_eq clearInterval_frame)+

lemma run_Nil: "run [] s = s"
  by (simp add: run_def)

lemma run_Cons: "run (x # xs) s = run xs (step s x)"
  by (simp add: run_def)

lemma frame_run:
  "interval (fst (run ops s)) = interval (fst s)"
  "destFile (fst (run ops s)) = destFile (fst s)"
  "startTime (fst (run ops s)) = startTime (fst s)"
  "hrtime (snd (run ops s)) = hrtime (snd s)"
  by (induction ops arbitrary: s; simp add: run_Nil run_Cons frame_step)+

text \<open>
  What one operation adds to the requests written, and what a run adds: each request
  carries the start time of the reporter and the next reading of the clock.
\<close>

lemma step_writes:
  assumes "VALID_CODES_has (status r)"
  shows "\<exists>new. writes (snd (step (r, w) x)) = writes w @ new \<and>
           reads (snd (step (r, w) x)) = reads w + length new \<and> length new \<le> 1 \<and>
           (\<forall>q \<in> set new.
              yaml_lines q ! 3 = ''start_time_unix_nano: '' @ template_num (startTime r) \<and>
              yaml_lines q ! 4 = ''status_time_unix_nano: '' @ show_nat (hrtime w (reads w)))"
proof -
  from assms obtain m where m: "VALID_CODES_get (status r) = Some m"
    by (auto simp: VALID_CODES_has_def)
  note nl = VALID_CODES_no_newline [OF m]
  have sd: "CHR 0x0A \<notin> set STATUS_AGENT_SHUTDOWN"
    by (simp add: STATUS_AGENT_SHUTDOWN_def)
  show ?thesis
  proof (cases x)
    case (SetStatus s)
    then show ?thesis by (simp add: frame_setStatus)
  next
    case Tick
    then show ?thesis using nl
      by (simp add: healthCheck_eq yaml_lines_def split_on_status_yaml m)
  next
    case (TickWritten err)
    then show ?thesis by (simp add: frame_callbacks)
  next
    case Stop
    then show ?thesis using nl sd
      by (simp add: stop_eq writeStatus_eq clearInterval_frame yaml_lines_def
          split_on_status_yaml m)
  next
    case (StopWritten err)
    then show ?thesis by (simp add: frame_callbacks)
  qed
qed

lemma run_writes:
  assumes "VALID_CODES_has (status r)"
  shows "\<exists>new. writes (snd (run ops (r, w))) = writes w @ new \<and>
           reads (snd (run ops (r, w))) = reads w + length new \<and>
           (\<forall>q \<in> set new.
              yaml_lines q ! 3 = ''start_time_unix_nano: '' @ template_num (startTime r)) \<and>
           map (\<lambda>q. yaml_lines q ! 4) new =
             map (\<lambda>k. ''status_time_unix_nano: '' @ show_nat (hrtime w k))
               [reads w ..< reads w + length new]"
  using assms
proof (induction ops arbitrary: r w)
  case Nil
  then show ?case by (simp add: run_Nil)
next
  case (Cons x xs)
  obtain r1 w1 where s1: "step (r, w) x = (r1, w1)"
    by (cases "step (r, w) x")
  from status_step [of "(r, w)" x] Cons.prems s1 have v1: "VALID_CODES_has (status r1)"
    by simp
  from frame_step [of "(r, w)" x] s1 have f1: "startTime r1 = startTime r" "hrtime w1 = hrtime w"
    by simp_all
  from step_writes [OF Cons.prems, of w x] s1 obtain new1 where
    n1: "writes w1 = writes w @ new1" "reads w1 = reads w + length new1" "length new1 \<le> 1"
      "\<forall>q \<in> set new1.
          yaml_lines q ! 3 = ''start_time_unix_nano: '' @ template_num (startTime r) \<and>
          yaml_lines q ! 4 = ''status_time_unix_nano: '' @ show_nat (hrtime w (reads w))"
    by auto
  from Cons.IH [OF v1, of w1] obtain new2 where
    n2: "writes (snd (run xs (r1, w1))) = writes w1 @ new2"
      "reads (snd (run xs (r1, w1))) = reads w1 + length new2"
      "\<forall>q \<in> set new2.
          yaml_lines q ! 3 = ''start_time_unix_nano: '' @ template_num (startTime r1)"
      "map (\<lambda>q. yaml_lines q ! 4) new2 =
         map (\<lambda>k. ''status_time_unix_nano: '' @ show_nat (hrtime w1 k))
           [reads w1 ..< reads w1 + length new2]"
    by auto
  have t1: "map (\<lambda>q. yaml_lines q ! 4) new1 =
      map (\<lambda>k. ''status_time_unix_nano: '' @ show_nat (hrtime w k))
        [reads w ..< reads w + length new1]"
  proof (cases new1)
    case Nil
    then show ?thesis by simp
  next
    case (Cons q qs)
    with n1(3) have "new1 = [q]" by simp
    with n1(4) show ?thesis by simp
  qed
  have up: "[reads w ..< reads w + (length new1 + length new2)] =
      [reads w ..< reads w + length new1] @
      [reads w + length new1 ..< reads w + length new1 + length new2]"
    using upt_add_eq_append [of "reads w" "reads w + length new1" "length new2"]
    by (simp add: add.assoc)
  have "writes (snd (run (x # xs) (r, w))) = writes w @ (new1 @ new2)"
    by (simp add: run_Cons s1 n2(1) n1(1))
  moreover have "reads (snd (run (x # xs) (r, w))) = reads w + length (new1 @ new2)"
    by (simp add: run_Cons s1 n2(2) n1(2))
  moreover have "\<forall>q \<in> set (new1 @ new2).
      yaml_lines q ! 3 = ''start_time_unix_nano: '' @ template_num (startTime r)"
    using n1(4) n2(3) f1(1) by auto
  moreover have "map (\<lambda>q. yaml_lines q ! 4) (new1 @ new2) =
      map (\<lambda>k. ''status_time_unix_nano: '' @ show_nat (hrtime w k))
        [reads w ..< reads w + length (new1 @ new2)]"
    using t1 n2(4) f1(2) n1(2) by (simp add: up)
  ultimately show ?case by blast
qed

section \<open>The constructor\<close>

lemma construct_early:
  "falsy (FLEET_ID e) \<Longrightarrow>
   construct e u w =
     (new_reporter, logger Info ''new relic control not present, skipping health reporting'' w)"
  "\<not> falsy (FLEET_ID e) \<Longrightarrow> HEALTH_DELIVERY_LOCATION e = None \<Longrightarrow>
   construct e u w =
     (new_reporter,
      logger Error ''health check output directory not provided, skipping health reporting'' w)"
  by (simp_all add: construct_def)

lemma construct_started:
  assumes "\<not> falsy (FLEET_ID e)" and "HEALTH_DELIVERY_LOCATION e = Some d"
  shows "fst (construct e u w) =
           \<lparr>status = STATUS_HEALTHY, interval = Some (next_timer w),
            destFile = Some (path_join d (''health-'' @ replaceAll_dash u @ ''.yaml'')),
            startTime = Some (hrtime w (reads w))\<rparr>"
    and "hrtime (snd (construct e u w)) = hrtime w"
    and "reads (snd (construct e u w)) = Suc (reads w)"
    and "writes (snd (construct e u w)) = writes w"
  using assms
  by (simp_all add: construct_def Let_def new_reporter_def hrtime_bigint_def logger_def
      setInterval_def unref_def split: option.splits prod.splits)

lemma construct_timer:
  assumes "\<not> falsy (FLEET_ID e)" and "HEALTH_DELIVERY_LOCATION e = Some d"
  shows "length (timers (snd (construct e u w))) = Suc (length (timers w))"
    and "last (timers (snd (construct e u w))) =
           \<lparr>timer_id = next_timer w,
            delay = (case HEALTH_FREQUENCY e of None \<Rightarrow> Num 5000
                     | Some s \<Rightarrow> js_times (parseInt10 s) 1000),
            hasRef = False\<rparr>"
  using assms
  by (simp_all add: construct_def Let_def hrtime_bigint_def logger_def
      setInterval_def unref_def last_map split: option.splits prod.splits)

lemma construct_logs:
  assumes "\<not> falsy (FLEET_ID e)" and "HEALTH_DELIVERY_LOCATION e = Some d"
  shows "logs (snd (construct e u w)) =
     logs w @
     (case HEALTH_FREQUENCY e of
        None \<Rightarrow> [(Debug, ''health check interval not available, using default 5 seconds'')]
      | Some s \<Rightarrow> []) @
     [(Info, ''new relic control is present, writing health on interval ''
              @ show_jsnum (number_text w)
                  (case HEALTH_FREQUENCY e of None \<Rightarrow> Num 5000
                   | Some s \<Rightarrow> js_times (parseInt10 s) 1000)
              @ '' milliseconds to '' @ path_join d (''health-'' @ replaceAll_dash u @ ''.yaml'')),
      (Info, ''health reporter initialized'')]"
  using assms
  by (simp add: construct_def Let_def hrtime_bigint_def logger_def
      setInterval_def unref_def split: option.splits prod.splits)

text \<open>The constructor on the fixtures of the tests.\<close>

lemma test_world_fields:
  "hrtime test_world = Suc" "reads test_world = 0" "next_timer test_world = 0"
  "timers test_world = []" "logs test_world = []" "writes test_world = []"
  "number_text test_world = (\<lambda>x. [])"
  by (simp_all add: test_world_def world0_def)

lemma parseInt10_1: "parseInt10 (units ''1'') = Num 1"
  by (simp add: parseInt10_def units_def isWhiteSpace_def isDigit_def decimalValue_def
      digitValue_def number_of_int_def safe_def Let_def)

lemma replaceAll_dash_test_uuid: "replaceAll_dash test_uuid = ''0f8fad5bd9cb469fa16570867728950e''"
  by (simp add: replaceAll_dash_def test_uuid_def)

lemma is_uuid_test: "is_uuid test_uuid"
  by (simp add: is_uuid_def test_uuid_def isHexDigit_def)

lemma path_join_tmp:
  "path_join ''/tmp'' ''health-0f8fad5bd9cb469fa16570867728950e.yaml'' =
     ''/tmp/health-0f8fad5bd9cb469fa16570867728950e.yaml''"
  by (simp add: path_join_def normalize_def normalizeString_def normalize_step_def Let_def)

lemma file_name_test:
  "file_name ''/tmp/health-0f8fad5bd9cb469fa16570867728950e.yaml'' =
     ''health-0f8fad5bd9cb469fa16570867728950e.yaml''"
  by (simp add: file_name_def)

lemma show_nat_1000: "show_nat 1000 = ''1000''"
  by (simp add: show_nat.simps digit_char_def)

lemma show_nat_5000: "show_nat 5000 = ''5000''"
  by (simp add: show_nat.simps digit_char_def)

lemma show_nat_small:
  "show_nat (Suc 0) = ''1''" "show_nat (Suc (Suc 0)) = ''2''"
  "show_nat (Suc (Suc (Suc 0))) = ''3''"
  "show_nat 1 = ''1''" "show_nat 2 = ''2''" "show_nat 3 = ''3''"
  by (simp_all add: show_nat.simps digit_char_def)

lemma construct_test: "construct test_env test_uuid test_world = (test_reporter, test_started)"
  by (simp add: construct_def test_env_def test_world_def world0_def parseInt10_1
      replaceAll_dash_test_uuid path_join_tmp show_nat_1000 hrtime_bigint_def logger_def
      setInterval_def unref_def new_reporter_def STATUS_HEALTHY_def test_reporter_def
      test_started_def Let_def safe_def number_of_int_def show_jsnum_def)

lemmas test_eval =
  run_def construct_test healthCheck_eq stop_eq writeStatus_eq setStatus_def
  VALID_CODES_has_def VALID_CODES_get_BACKEND VALID_CODES_get_HEALTHY [unfolded STATUS_HEALTHY_def]
  VALID_CODES_get_SHUTDOWN [unfolded STATUS_AGENT_SHUTDOWN_def]
  STATUS_HEALTHY_def STATUS_BACKEND_ERROR_def STATUS_AGENT_SHUTDOWN_def
  test_reporter_def test_started_def show_nat_small

text \<open>
  C7. When the constructor gets past its two checks (the fleet identifier is set and not
  empty, the output directory is set): without a reporting interval it logs exactly one
  \<open>Debug\<close> entry, before its two \<open>Info\<close> entries, and schedules the timer with a delay of
  5000 milliseconds; with a reporting interval \<open>s\<close> it logs no \<open>Debug\<close> entry and the
  delay is \<^verbatim>\<open>parseInt(s, 10) * 1000\<close>. That is: when \<open>s\<close> is white space, an
  optional sign, the decimal digits of \<open>n\<close> (with \<open>n * 1000\<close> a safe integer) and a
  rest that does not start with a digit, the delay is \<open>n * 1000\<close> with that sign, and
  the log prints it in decimal; when no digit follows the white space and the sign, the
  delay is \<^verbatim>\<open>NaN\<close>.
\<close>

theorem construct_interval:
  assumes "\<not> falsy (FLEET_ID e)" and "HEALTH_DELIVERY_LOCATION e = Some d"
    and "construct e u w = (r, w')"
  shows "(HEALTH_FREQUENCY e = None \<longrightarrow>
            logs w' = logs w @
              [(Debug, ''health check interval not available, using default 5 seconds''),
               (Info, ''new relic control is present, writing health on interval 5000 milliseconds to ''
                        @ path_join d (''health-'' @ replaceAll_dash u @ ''.yaml'')),
               (Info, ''health reporter initialized'')] \<and>
            last (timers w') = \<lparr>timer_id = next_timer w, delay = Num 5000, hasRef = False\<rparr>) \<and>
         (\<forall>s. HEALTH_FREQUENCY e = Some s \<longrightarrow>
            logs w' = logs w @
              [(Info, ''new relic control is present, writing health on interval ''
                        @ show_jsnum (number_text w) (js_times (parseInt10 s) 1000)
                        @ '' milliseconds to ''
                        @ path_join d (''health-'' @ replaceAll_dash u @ ''.yaml'')),
               (Info, ''health reporter initialized'')] \<and>
            last (timers w') =
              \<lparr>timer_id = next_timer w, delay = js_times (parseInt10 s) 1000, hasRef = False\<rparr>) \<and>
         (\<forall>ws sg n rest.
            HEALTH_FREQUENCY e = Some (ws @ sg @ units (show_nat n) @ rest) \<and>
            list_all isWhiteSpace ws \<and> (sg = [] \<or> sg = [0x2B] \<or> sg = [0x2D]) \<and>
            (rest = [] \<or> \<not> isDigit (hd rest)) \<and> int n * 1000 \<le> 2 ^ 53 \<longrightarrow>
            delay (last (timers w')) = Num ((if sg = [0x2D] then - 1 else 1) * int n * 1000) \<and>
            logs w' = logs w @
              [(Info, ''new relic control is present, writing health on interval ''
                        @ (if sg = [0x2D] \<and> 0 < n then ''-'' else [])
                        @ show_nat (n * 1000) @ '' milliseconds to ''
                        @ path_join d (''health-'' @ replaceAll_dash u @ ''.yaml'')),
               (Info, ''health reporter initialized'')]) \<and>
         (\<forall>ws sg rest.
            HEALTH_FREQUENCY e = Some (ws @ sg @ rest) \<and>
            list_all isWhiteSpace ws \<and> (sg = [] \<or> sg = [0x2B] \<or> sg = [0x2D]) \<and>
            (rest = [] \<or> \<not> isDigit (hd rest)) \<and>
            (sg = [] \<longrightarrow>
               rest = [] \<or>
               (\<not> isWhiteSpace (hd rest) \<and> hd rest \<noteq> 0x2B \<and> hd rest \<noteq> 0x2D)) \<longrightarrow>
            delay (last (timers w')) = NaN \<and>
            logs w' = logs w @
              [(Info, ''new relic control is present, writing health on interval NaN milliseconds to ''
                        @ path_join d (''health-'' @ replaceAll_dash u @ ''.yaml'')),
               (Info, ''health reporter initialized'')]) \<and>
         interval r = Some (next_timer w) \<and> length (timers w') = Suc (length (timers w))"
proof -
  note lg = construct_logs [OF assms(1,2), of u w]
    and tm = construct_timer [OF assms(1,2), of u w]
    and st = construct_started(1) [OF assms(1,2), of u w]
  have none: "HEALTH_FREQUENCY e = None \<longrightarrow>
            logs w' = logs w @
              [(Debug, ''health check interval not available, using default 5 seconds''),
               (Info, ''new relic control is present, writing health on interval 5000 milliseconds to ''
                        @ path_join d (''health-'' @ replaceAll_dash u @ ''.yaml'')),
               (Info, ''health reporter initialized'')] \<and>
            last (timers w') = \<lparr>timer_id = next_timer w, delay = Num 5000, hasRef = False\<rparr>"
    using lg tm(2) assms(3) by (simp add: show_jsnum_safe safe_def show_nat_5000)
  have some: "logs w' = logs w @
              [(Info, ''new relic control is present, writing health on interval ''
                        @ show_jsnum (number_text w) (js_times (parseInt10 s) 1000)
                        @ '' milliseconds to ''
                        @ path_join d (''health-'' @ replaceAll_dash u @ ''.yaml'')),
               (Info, ''health reporter initialized'')] \<and>
            last (timers w') =
              \<lparr>timer_id = next_timer w, delay = js_times (parseInt10 s) 1000, hasRef = False\<rparr>"
    if "HEALTH_FREQUENCY e = Some s" for s
    using that lg tm(2) assms(3) by simp
  have dec: "delay (last (timers w')) = Num ((if sg = [0x2D] then - 1 else 1) * int n * 1000) \<and>
            logs w' = logs w @
              [(Info, ''new relic control is present, writing health on interval ''
                        @ (if sg = [0x2D] \<and> 0 < n then ''-'' else [])
                        @ show_nat (n * 1000) @ '' milliseconds to ''
                        @ path_join d (''health-'' @ replaceAll_dash u @ ''.yaml'')),
               (Info, ''health reporter initialized'')]"
    if f: "HEALTH_FREQUENCY e = Some (ws @ sg @ units (show_nat n) @ rest)"
      and h: "list_all isWhiteSpace ws" "sg = [] \<or> sg = [0x2B] \<or> sg = [0x2D]"
        "rest = [] \<or> \<not> isDigit (hd rest)" "int n * 1000 \<le> 2 ^ 53"
    for ws sg n rest
  proof -
    let ?i = "(if sg = [0x2D] then - 1 else 1) * int n * 1000"
    have v: "js_times (parseInt10 (ws @ sg @ units (show_nat n) @ rest)) 1000 = Num ?i"
      using h by (rule parseInt10_decimal)
    have sf: "safe ?i"
      using h(4) by (simp add: safe_def)
    have pr: "show_jsnum (number_text w) (Num ?i) =
        (if sg = [0x2D] \<and> 0 < n then ''-'' else []) @ show_nat (n * 1000)"
      by (simp add: show_jsnum_safe [OF sf] nat_mult_distrib)
    from some [OF f] show ?thesis
      by (simp add: v pr)
  qed
  have nan: "delay (last (timers w')) = NaN \<and>
            logs w' = logs w @
              [(Info, ''new relic control is present, writing health on interval NaN milliseconds to ''
                        @ path_join d (''health-'' @ replaceAll_dash u @ ''.yaml'')),
               (Info, ''health reporter initialized'')]"
    if f: "HEALTH_FREQUENCY e = Some (ws @ sg @ rest)"
      and h: "list_all isWhiteSpace ws" "sg = [] \<or> sg = [0x2B] \<or> sg = [0x2D]"
        "rest = [] \<or> \<not> isDigit (hd rest)"
        "sg = [] \<longrightarrow>
           rest = [] \<or> (\<not> isWhiteSpace (hd rest) \<and> hd rest \<noteq> 0x2B \<and> hd rest \<noteq> 0x2D)"
    for ws sg rest
  proof -
    have v: "js_times (parseInt10 (ws @ sg @ rest)) 1000 = NaN"
      using h by (rule parseInt10_NaN)
    from some [OF f] show ?thesis
      by (simp add: v show_jsnum_NaN)
  qed
  have rest: "interval r = Some (next_timer w) \<and> length (timers w') = Suc (length (timers w))"
    using st tm(1) assms(3) by simp
  from none some dec nan rest show ?thesis
    by blast
qed

theorem construct_interval_witness:
  "(let (r, w) = construct (test_env\<lparr>HEALTH_FREQUENCY := None\<rparr>) test_uuid test_world
    in logs w =
         [(Debug, ''health check interval not available, using default 5 seconds''),
          (Info, ''new relic control is present, writing health on interval 5000 milliseconds to /tmp/health-0f8fad5bd9cb469fa16570867728950e.yaml''),
          (Info, ''health reporter initialized'')] \<and>
       timers w = [\<lparr>timer_id = 0, delay = Num 5000, hasRef = False\<rparr>]) \<and>
   (let (r, w) = construct (test_env\<lparr>HEALTH_FREQUENCY := Some (0xA0 # units ''30s'')\<rparr>)
                   test_uuid test_world
    in logs w =
         [(Info, ''new relic control is present, writing health on interval 30000 milliseconds to /tmp/health-0f8fad5bd9cb469fa16570867728950e.yaml''),
          (Info, ''health reporter initialized'')] \<and>
       timers w = [\<lparr>timer_id = 0, delay = Num 30000, hasRef = False\<rparr>]) \<and>
   (let (r, w) = construct (test_env\<lparr>HEALTH_FREQUENCY := Some (units ''-7'')\<rparr>)
                   test_uuid test_world
    in timers w = [\<lparr>timer_id = 0, delay = Num (- 7000), hasRef = False\<rparr>]) \<and>
   (let (r, w) = construct (test_env\<lparr>HEALTH_FREQUENCY := Some (units ''fast'')\<rparr>)
                   test_uuid test_world
    in logs w =
         [(Info, ''new relic control is present, writing health on interval NaN milliseconds to /tmp/health-0f8fad5bd9cb469fa16570867728950e.yaml''),
          (Info, ''health reporter initialized'')] \<and>
       timers w = [\<lparr>timer_id = 0, delay = NaN, hasRef = False\<rparr>])"
proof -
  let ?e1 = "test_env\<lparr>HEALTH_FREQUENCY := None\<rparr>"
  let ?e2 = "test_env\<lparr>HEALTH_FREQUENCY := Some (0xA0 # units ''30s'')\<rparr>"
  let ?e3 = "test_env\<lparr>HEALTH_FREQUENCY := Some (units ''-7'')\<rparr>"
  let ?e4 = "test_env\<lparr>HEALTH_FREQUENCY := Some (units ''fast'')\<rparr>"
  obtain r1 w1 where s1: "construct ?e1 test_uuid test_world = (r1, w1)"
    by (cases "construct ?e1 test_uuid test_world")
  obtain r2 w2 where s2: "construct ?e2 test_uuid test_world = (r2, w2)"
    by (cases "construct ?e2 test_uuid test_world")
  obtain r3 w3 where s3: "construct ?e3 test_uuid test_world = (r3, w3)"
    by (cases "construct ?e3 test_uuid test_world")
  obtain r4 w4 where s4: "construct ?e4 test_uuid test_world = (r4, w4)"
    by (cases "construct ?e4 test_uuid test_world")
  have e: "\<not> falsy (FLEET_ID (test_env\<lparr>HEALTH_FREQUENCY := f\<rparr>))"
    "HEALTH_DELIVERY_LOCATION (test_env\<lparr>HEALTH_FREQUENCY := f\<rparr>) = Some ''/tmp''" for f
    by (simp_all add: test_env_def)
  note c1 = construct_interval [OF e s1] and c2 = construct_interval [OF e s2]
    and c3 = construct_interval [OF e s3] and c4 = construct_interval [OF e s4]
  have u30: "(map of_char (show_nat 30) :: nat list) = [51, 48]"
    and u7: "(map of_char (show_nat 7) :: nat list) = [55]"
    by (simp_all add: show_nat.simps digit_char_def)
  note p = replaceAll_dash_test_uuid path_join_tmp
  have a1: "logs w1 =
         [(Debug, ''health check interval not available, using default 5 seconds''),
          (Info, ''new relic control is present, writing health on interval 5000 milliseconds to /tmp/health-0f8fad5bd9cb469fa16570867728950e.yaml''),
          (Info, ''health reporter initialized'')]"
      "last (timers w1) = \<lparr>timer_id = 0, delay = Num 5000, hasRef = False\<rparr>"
      "length (timers w1) = Suc 0"
    using c1 by (simp_all add: test_world_fields p)
  have "delay (last (timers w2)) = Num ((if [] = [0x2D::nat] then - 1 else 1) * int 30 * 1000) \<and>
      logs w2 = logs test_world @
              [(Info, ''new relic control is present, writing health on interval ''
                        @ (if [] = [0x2D::nat] \<and> 0 < (30::nat) then ''-'' else [])
                        @ show_nat (30 * 1000) @ '' milliseconds to ''
                        @ path_join ''/tmp'' (''health-'' @ replaceAll_dash test_uuid @ ''.yaml'')),
               (Info, ''health reporter initialized'')]"
    using c2 [THEN conjunct2, THEN conjunct2, THEN conjunct1, rule_format,
        of "[0xA0]" "[]" 30 "units ''s''"]
    by (simp add: u30 units_def isWhiteSpace_def isDigit_def)
  then have a2: "delay (last (timers w2)) = Num 30000"
      "logs w2 =
         [(Info, ''new relic control is present, writing health on interval 30000 milliseconds to /tmp/health-0f8fad5bd9cb469fa16570867728950e.yaml''),
          (Info, ''health reporter initialized'')]"
    by (simp_all add: test_world_fields p show_nat.simps digit_char_def)
  have l2: "last (timers w2) = \<lparr>timer_id = 0, delay = Num 30000, hasRef = False\<rparr>"
      "length (timers w2) = Suc 0"
    using c2 a2(1) by (simp_all add: test_world_fields)
  have "delay (last (timers w3)) = Num ((if [0x2D] = [0x2D::nat] then - 1 else 1) * int 7 * 1000)"
    using c3 [THEN conjunct2, THEN conjunct2, THEN conjunct1, rule_format,
        of "[]" "[0x2D]" 7 "[]"]
    by (simp add: u7 units_def)
  then have l3: "last (timers w3) = \<lparr>timer_id = 0, delay = Num (- 7000), hasRef = False\<rparr>"
      "length (timers w3) = Suc 0"
    using c3 by (simp_all add: test_world_fields)
  have "delay (last (timers w4)) = NaN \<and>
      logs w4 = logs test_world @
              [(Info, ''new relic control is present, writing health on interval NaN milliseconds to ''
                        @ path_join ''/tmp'' (''health-'' @ replaceAll_dash test_uuid @ ''.yaml'')),
               (Info, ''health reporter initialized'')]"
    using c4 [THEN conjunct2, THEN conjunct2, THEN conjunct2, THEN conjunct1, rule_format,
        of "[]" "[]" "units ''fast''"]
    by (simp add: units_def isWhiteSpace_def isDigit_def)
  then have a4: "delay (last (timers w4)) = NaN"
      "logs w4 =
         [(Info, ''new relic control is present, writing health on interval NaN milliseconds to /tmp/health-0f8fad5bd9cb469fa16570867728950e.yaml''),
          (Info, ''health reporter initialized'')]"
    by (simp_all add: test_world_fields p)
  have l4: "last (timers w4) = \<lparr>timer_id = 0, delay = NaN, hasRef = False\<rparr>"
      "length (timers w4) = Suc 0"
    using c4 a4(1) by (simp_all add: test_world_fields)
  show ?thesis
    using a1 a2(2) a4(2) singleton_last [OF a1(3)] singleton_last [OF l2(2)]
      singleton_last [OF l3(2)] singleton_last [OF l4(2)] l2(1) l3(1) l4(1)
    by (simp add: s1 s2 s3 s4)
qed

text \<open>
  C9. The two checks of the constructor differ on the empty string. A fleet identifier
  that is unset or empty (the falsy values of an environment variable) ends the
  construction with one \<open>Info\<close> entry and nothing else. An output directory ends it
  (with one \<open>Error\<close> entry) only when it is unset: with the empty string the
  construction goes on, the destination is \<^verbatim>\<open>path.join('', name)\<close>, which is the
  bare file name, and the timer is scheduled.
\<close>

theorem construct_empty_strings:
  "(falsy (FLEET_ID e) = (FLEET_ID e = None \<or> FLEET_ID e = Some [])) \<and>
   (falsy (FLEET_ID e) \<longrightarrow>
      construct e u w =
        (new_reporter,
         w\<lparr>logs := logs w @
            [(Info, ''new relic control not present, skipping health reporting'')]\<rparr>)) \<and>
   (\<not> falsy (FLEET_ID e) \<and> HEALTH_DELIVERY_LOCATION e = None \<longrightarrow>
      construct e u w =
        (new_reporter,
         w\<lparr>logs := logs w @
            [(Error, ''health check output directory not provided, skipping health reporting'')]\<rparr>)) \<and>
   (\<not> falsy (FLEET_ID e) \<and> HEALTH_DELIVERY_LOCATION e = Some [] \<longrightarrow>
      destFile (fst (construct e u w)) =
        Some (path_join [] (''health-'' @ replaceAll_dash u @ ''.yaml'')) \<and>
      (is_uuid u \<longrightarrow>
         destFile (fst (construct e u w)) = Some (''health-'' @ replaceAll_dash u @ ''.yaml'')) \<and>
      interval (fst (construct e u w)) = Some (next_timer w) \<and>
      length (timers (snd (construct e u w))) = Suc (length (timers w)))"
proof -
  have a: "falsy (FLEET_ID e) = (FLEET_ID e = None \<or> FLEET_ID e = Some [])"
    by (cases "FLEET_ID e") simp_all
  have b: "path_join [] (''health-'' @ replaceAll_dash u @ ''.yaml'') =
      ''health-'' @ replaceAll_dash u @ ''.yaml''" if "is_uuid u"
    using health_name_facts(2-5) [OF that] by (rule path_join_empty_dir)
  show ?thesis
    using a b construct_early [of e u w]
      construct_started(1) [of e "[]" u w] construct_timer(1) [of e "[]" u w]
    by (auto simp: logger_def)
qed

theorem construct_empty_strings_witness:
  "construct (test_env\<lparr>FLEET_ID := Some ''''\<rparr>) test_uuid test_world =
     (new_reporter,
      test_world\<lparr>logs := [(Info, ''new relic control not present, skipping health reporting'')]\<rparr>) \<and>
   construct (test_env\<lparr>HEALTH_DELIVERY_LOCATION := None\<rparr>) test_uuid test_world =
     (new_reporter,
      test_world\<lparr>logs :=
        [(Error, ''health check output directory not provided, skipping health reporting'')]\<rparr>) \<and>
   (let (r, w) = construct (test_env\<lparr>HEALTH_DELIVERY_LOCATION := Some ''''\<rparr>) test_uuid test_world
    in destFile r = Some ''health-0f8fad5bd9cb469fa16570867728950e.yaml'' \<and>
       interval r = Some 0 \<and> length (timers w) = 1)"
proof -
  let ?e1 = "test_env\<lparr>FLEET_ID := Some ''''\<rparr>"
  let ?e2 = "test_env\<lparr>HEALTH_DELIVERY_LOCATION := None\<rparr>"
  let ?e3 = "test_env\<lparr>HEALTH_DELIVERY_LOCATION := Some ''''\<rparr>"
  have e1: "falsy (FLEET_ID ?e1)"
    and e2: "\<not> falsy (FLEET_ID ?e2) \<and> HEALTH_DELIVERY_LOCATION ?e2 = None"
    and e3: "\<not> falsy (FLEET_ID ?e3) \<and> HEALTH_DELIVERY_LOCATION ?e3 = Some []"
    by (simp_all add: test_env_def)
  from construct_empty_strings [of ?e1 test_uuid test_world] e1
  have c1: "construct ?e1 test_uuid test_world =
      (new_reporter,
       test_world\<lparr>logs := logs test_world @
          [(Info, ''new relic control not present, skipping health reporting'')]\<rparr>)"
    by blast
  from construct_empty_strings [of ?e2 test_uuid test_world] e2
  have c2: "construct ?e2 test_uuid test_world =
      (new_reporter,
       test_world\<lparr>logs := logs test_world @
          [(Error, ''health check output directory not provided, skipping health reporting'')]\<rparr>)"
    by blast
  from construct_empty_strings [of ?e3 test_uuid test_world] e3 is_uuid_test
  have c3: "destFile (fst (construct ?e3 test_uuid test_world)) =
        Some (''health-'' @ replaceAll_dash test_uuid @ ''.yaml'')"
      "interval (fst (construct ?e3 test_uuid test_world)) = Some (next_timer test_world)"
      "length (timers (snd (construct ?e3 test_uuid test_world))) =
        Suc (length (timers test_world))"
    by blast+
  show ?thesis
    by (simp add: c1 c2 c3 case_prod_beta test_world_fields replaceAll_dash_test_uuid)
qed

section \<open>Ticks\<close>

text \<open>
  C5. After a construction that got past its checks, with a UUID of the platform's
  format, and after any operations: a tick issues exactly one write; its path has a file
  name that matches \<^verbatim>\<open>health-[0-9a-f]{32}\.yaml\<close>; its content is five lines
  joined by newlines, with no newline after the last, in the order \<^verbatim>\<open>healthy\<close>,
  \<^verbatim>\<open>status\<close>, \<^verbatim>\<open>last_error\<close>, \<^verbatim>\<open>start_time_unix_nano\<close>,
  \<^verbatim>\<open>status_time_unix_nano\<close>; \<^verbatim>\<open>last_error\<close> is the current status code,
  \<^verbatim>\<open>status\<close> the table's message for it between single quotes, and
  \<^verbatim>\<open>healthy\<close> is \<^verbatim>\<open>true\<close> exactly when the code is the healthy one.
\<close>

theorem tick_writes_record:
  assumes "is_uuid u" and "\<not> falsy (FLEET_ID e)" and "HEALTH_DELIVERY_LOCATION e = Some d"
    and "run ops (construct e u w0) = (r, w)"
  shows "\<exists>q p m. writes (snd (healthCheck r w)) = writes w @ [q] \<and>
           w_file q = Some p \<and> health_file_name (file_name p) \<and>
           VALID_CODES_get (status r) = Some m \<and>
           w_data q = join_with [CHR 0x0A] (yaml_lines q) \<and>
           yaml_lines q =
             [''healthy: '' @ (if status r = STATUS_HEALTHY then ''true'' else ''false''),
              ''status: '' @ [CHR 0x27] @ m @ [CHR 0x27],
              ''last_error: '' @ status r,
              ''start_time_unix_nano: '' @ show_nat (hrtime w0 (reads w0)),
              ''status_time_unix_nano: '' @ show_nat (hrtime w (reads w))]"
proof -
  let ?n = "''health-'' @ replaceAll_dash u @ ''.yaml''"
  let ?p = "path_join d ?n"
  obtain r1 w1 where c: "construct e u w0 = (r1, w1)"
    by (cases "construct e u w0")
  from construct_started(1) [OF assms(2,3), of u w0] c
  have r1: "status r1 = STATUS_HEALTHY" "startTime r1 = Some (hrtime w0 (reads w0))"
    "destFile r1 = Some ?p"
    by simp_all
  from frame_run(2,3) [of ops "(r1, w1)"] assms(4) c r1
  have r: "destFile r = Some ?p" "startTime r = Some (hrtime w0 (reads w0))"
    by simp_all
  from status_run [of "(r1, w1)" ops] r1(1) assms(4) c have "VALID_CODES_has (status r)"
    by (simp add: VALID_CODES_has_HEALTHY)
  then obtain m where m: "VALID_CODES_get (status r) = Some m"
    by (auto simp: VALID_CODES_has_def)
  note nl = VALID_CODES_no_newline [OF m]
  let ?ls = "[''healthy: '' @ (if status r = STATUS_HEALTHY then ''true'' else ''false''),
              ''status: '' @ [CHR 0x27] @ m @ [CHR 0x27],
              ''last_error: '' @ status r,
              ''start_time_unix_nano: '' @ show_nat (hrtime w0 (reads w0)),
              ''status_time_unix_nano: '' @ show_nat (hrtime w (reads w))]"
  let ?q = "\<lparr>w_file = Some ?p,
             w_data = status_yaml (status r = STATUS_HEALTHY) (status r) (Some m)
                        (Some (hrtime w0 (reads w0))) (hrtime w (reads w)),
             w_encoding = ''utf8''\<rparr>"
  have lines: "yaml_lines ?q = ?ls"
    using nl by (simp add: yaml_lines_def split_on_status_yaml template_bool_def)
  have data: "w_data ?q = join_with [CHR 0x0A] ?ls"
    by (simp add: status_yaml_def template_bool_def)
  have name: "health_file_name (file_name ?p)"
    using health_name_facts [OF assms(1)] by (simp add: file_name_path_join)
  have "writes (snd (healthCheck r w)) = writes w @ [?q]"
    by (simp add: healthCheck_eq r m)
  with lines data name m show ?thesis
    by (intro exI [of _ ?q] exI [of _ ?p] exI [of _ m]) simp
qed

theorem tick_writes_record_witness:
  "is_uuid test_uuid \<and>
   (let (r, w) = run [SetStatus STATUS_BACKEND_ERROR] (construct test_env test_uuid test_world);
        q = last (writes (snd (healthCheck r w)))
    in w_file q = Some ''/tmp/health-0f8fad5bd9cb469fa16570867728950e.yaml'' \<and>
       health_file_name ''health-0f8fad5bd9cb469fa16570867728950e.yaml'' \<and>
       w_data q = join_with [CHR 0x0A] (yaml_lines q) \<and>
       yaml_lines q =
         [''healthy: false'',
          ''status: '' @ [CHR 0x27] @ ''HTTP error communicating with New Relic.'' @ [CHR 0x27],
          ''last_error: NR-APM-004'',
          ''start_time_unix_nano: 1'',
          ''status_time_unix_nano: 2''])"
proof -
  obtain r w where s: "run [SetStatus STATUS_BACKEND_ERROR]
      (construct test_env test_uuid test_world) = (r, w)"
    by (cases "run [SetStatus STATUS_BACKEND_ERROR] (construct test_env test_uuid test_world)")
  have e: "\<not> falsy (FLEET_ID test_env)" "HEALTH_DELIVERY_LOCATION test_env = Some ''/tmp''"
    by (simp_all add: test_env_def)
  from s have rf: "status r = ''NR-APM-004''"
      "destFile r = Some ''/tmp/health-0f8fad5bd9cb469fa16570867728950e.yaml''"
    and w: "hrtime w (reads w) = 2"
    by (auto simp: test_eval)
  from tick_writes_record [OF is_uuid_test e s] obtain q p m where
    q: "writes (snd (healthCheck r w)) = writes w @ [q]" "w_file q = Some p"
      "health_file_name (file_name p)" "VALID_CODES_get (status r) = Some m"
      "w_data q = join_with [CHR 0x0A] (yaml_lines q)"
      "yaml_lines q =
         [''healthy: '' @ (if status r = STATUS_HEALTHY then ''true'' else ''false''),
          ''status: '' @ [CHR 0x27] @ m @ [CHR 0x27],
          ''last_error: '' @ status r,
          ''start_time_unix_nano: '' @ show_nat (hrtime test_world (reads test_world)),
          ''status_time_unix_nano: '' @ show_nat (hrtime w (reads w))]"
    by blast
  have "w_file q = destFile r"
    using q(1) by (auto simp: healthCheck_eq)
  with q(2) rf(2) have p: "p = ''/tmp/health-0f8fad5bd9cb469fa16570867728950e.yaml''"
    by simp
  have m: "m = ''HTTP error communicating with New Relic.''"
    using q(4) by (simp add: rf VALID_CODES_get_BACKEND)
  have "health_file_name ''health-0f8fad5bd9cb469fa16570867728950e.yaml''"
    using q(3) by (simp add: p file_name_test)
  moreover have "last (writes (snd (healthCheck r w))) = q"
    by (simp add: q(1))
  ultimately show ?thesis
    using q(2,5,6) is_uuid_test
    by (simp add: s p m rf w STATUS_HEALTHY_def test_world_fields show_nat_small)
qed

section \<open>Stopping\<close>

text \<open>
  C4. \<^verbatim>\<open>stop\<close> cancels the reporter's timer (no timer with its handle is left)
  and issues exactly one write, to the reporter's destination. From the healthy code the
  record says \<^verbatim>\<open>healthy: true\<close> with the message and the code of the shutdown;
  from any other code of the table it says \<^verbatim>\<open>healthy: false\<close> with that code and
  its message.
\<close>

theorem stop_final_write:
  "timers (snd (stop r w)) = filter (\<lambda>t. Some (timer_id t) \<noteq> interval r) (timers w) \<and>
   (\<exists>q. writes (snd (stop r w)) = writes w @ [q] \<and> w_file q = destFile r \<and>
      (status r = STATUS_HEALTHY \<longrightarrow>
         yaml_lines q =
           [''healthy: true'',
            ''status: '' @ [CHR 0x27] @ ''Agent has shutdown.'' @ [CHR 0x27],
            ''last_error: NR-APM-099'',
            ''start_time_unix_nano: '' @ template_num (startTime r),
            ''status_time_unix_nano: '' @ show_nat (hrtime w (reads w))]) \<and>
      (\<forall>m. status r \<noteq> STATUS_HEALTHY \<and> VALID_CODES_get (status r) = Some m \<longrightarrow>
         yaml_lines q =
           [''healthy: false'',
            ''status: '' @ [CHR 0x27] @ m @ [CHR 0x27],
            ''last_error: '' @ status r,
            ''start_time_unix_nano: '' @ template_num (startTime r),
            ''status_time_unix_nano: '' @ show_nat (hrtime w (reads w))]))"
proof -
  let ?t = "hrtime w (reads w)"
  let ?q = "\<lparr>w_file = destFile r,
             w_data = status_yaml (status r = STATUS_HEALTHY)
               (if status r = STATUS_HEALTHY then STATUS_AGENT_SHUTDOWN else status r)
               (if status r = STATUS_HEALTHY then Some ''Agent has shutdown.''
                else VALID_CODES_get (status r))
               (startTime r) ?t,
             w_encoding = ''utf8''\<rparr>"
  have timers: "timers (snd (stop r w)) = filter (\<lambda>t. Some (timer_id t) \<noteq> interval r) (timers w)"
    by (simp add: stop_eq writeStatus_eq clearInterval_frame)
  have writes: "writes (snd (stop r w)) = writes w @ [?q]"
    by (simp add: stop_eq writeStatus_eq clearInterval_frame)
  have healthy: "yaml_lines ?q =
           [''healthy: true'',
            ''status: '' @ [CHR 0x27] @ ''Agent has shutdown.'' @ [CHR 0x27],
            ''last_error: NR-APM-099'',
            ''start_time_unix_nano: '' @ template_num (startTime r),
            ''status_time_unix_nano: '' @ show_nat ?t]"
    if "status r = STATUS_HEALTHY"
    using that
    by (simp add: yaml_lines_def split_on_status_yaml STATUS_AGENT_SHUTDOWN_def template_bool_def)
  have failing: "yaml_lines ?q =
           [''healthy: false'',
            ''status: '' @ [CHR 0x27] @ m @ [CHR 0x27],
            ''last_error: '' @ status r,
            ''start_time_unix_nano: '' @ template_num (startTime r),
            ''status_time_unix_nano: '' @ show_nat ?t]"
    if "status r \<noteq> STATUS_HEALTHY" and "VALID_CODES_get (status r) = Some m" for m
    using that VALID_CODES_no_newline [OF that(2)]
    by (simp add: yaml_lines_def split_on_status_yaml template_bool_def)
  have "writes (snd (stop r w)) = writes w @ [?q] \<and> w_file ?q = destFile r \<and>
      (status r = STATUS_HEALTHY \<longrightarrow>
         yaml_lines ?q =
           [''healthy: true'',
            ''status: '' @ [CHR 0x27] @ ''Agent has shutdown.'' @ [CHR 0x27],
            ''last_error: NR-APM-099'',
            ''start_time_unix_nano: '' @ template_num (startTime r),
            ''status_time_unix_nano: '' @ show_nat ?t]) \<and>
      (\<forall>m. status r \<noteq> STATUS_HEALTHY \<and> VALID_CODES_get (status r) = Some m \<longrightarrow>
         yaml_lines ?q =
           [''healthy: false'',
            ''status: '' @ [CHR 0x27] @ m @ [CHR 0x27],
            ''last_error: '' @ status r,
            ''start_time_unix_nano: '' @ template_num (startTime r),
            ''status_time_unix_nano: '' @ show_nat ?t])"
    using writes healthy failing by simp
  then show ?thesis
    using timers by blast
qed

theorem stop_final_write_witness:
  "(let (r, w) = run [Tick, SetStatus STATUS_BACKEND_ERROR] (construct test_env test_uuid test_world)
    in timers w = [\<lparr>timer_id = 0, delay = Num 1000, hasRef = False\<rparr>] \<and>
       timers (snd (stop r w)) = [] \<and>
       w_file (last (writes (snd (stop r w)))) =
         Some ''/tmp/health-0f8fad5bd9cb469fa16570867728950e.yaml'' \<and>
       yaml_lines (last (writes (snd (stop r w)))) =
         [''healthy: false'',
          ''status: '' @ [CHR 0x27] @ ''HTTP error communicating with New Relic.'' @ [CHR 0x27],
          ''last_error: NR-APM-004'',
          ''start_time_unix_nano: 1'',
          ''status_time_unix_nano: 3'']) \<and>
   (let (r, w) = run [Tick] (construct test_env test_uuid test_world)
    in yaml_lines (last (writes (snd (stop r w)))) =
         [''healthy: true'',
          ''status: '' @ [CHR 0x27] @ ''Agent has shutdown.'' @ [CHR 0x27],
          ''last_error: NR-APM-099'',
          ''start_time_unix_nano: 1'',
          ''status_time_unix_nano: 3''])"
proof -
  obtain r w where s: "run [Tick, SetStatus STATUS_BACKEND_ERROR]
      (construct test_env test_uuid test_world) = (r, w)"
    by (cases "run [Tick, SetStatus STATUS_BACKEND_ERROR] (construct test_env test_uuid test_world)")
  obtain r' w' where s': "run [Tick] (construct test_env test_uuid test_world) = (r', w')"
    by (cases "run [Tick] (construct test_env test_uuid test_world)")
  from s have r: "r = test_reporter\<lparr>status := ''NR-APM-004''\<rparr>"
    and w: "timers w = [\<lparr>timer_id = 0, delay = Num 1000, hasRef = False\<rparr>]"
      "hrtime w (reads w) = 3"
    by (auto simp: test_eval)
  from s' have r': "r' = test_reporter" and w': "hrtime w' (reads w') = 3"
    by (auto simp: test_eval)
  have a: "status r \<noteq> STATUS_HEALTHY \<and>
      VALID_CODES_get (status r) = Some ''HTTP error communicating with New Relic.''"
    by (simp add: r test_eval)
  have b: "status r' = STATUS_HEALTHY"
    by (simp add: r' test_eval)
  from stop_final_write [of r w] a obtain q where
    q: "timers (snd (stop r w)) = filter (\<lambda>t. Some (timer_id t) \<noteq> interval r) (timers w)"
      "writes (snd (stop r w)) = writes w @ [q]" "w_file q = destFile r"
      "yaml_lines q =
           [''healthy: false'',
            ''status: '' @ [CHR 0x27] @ ''HTTP error communicating with New Relic.'' @ [CHR 0x27],
            ''last_error: '' @ status r,
            ''start_time_unix_nano: '' @ template_num (startTime r),
            ''status_time_unix_nano: '' @ show_nat (hrtime w (reads w))]"
    by blast
  from stop_final_write [of r' w'] b obtain q' where
    q': "writes (snd (stop r' w')) = writes w' @ [q']"
      "yaml_lines q' =
           [''healthy: true'',
            ''status: '' @ [CHR 0x27] @ ''Agent has shutdown.'' @ [CHR 0x27],
            ''last_error: NR-APM-099'',
            ''start_time_unix_nano: '' @ template_num (startTime r'),
            ''status_time_unix_nano: '' @ show_nat (hrtime w' (reads w'))]"
    by blast
  have rf: "status r = ''NR-APM-004''" "interval r = Some 0" "startTime r = Some 1"
      "destFile r = Some ''/tmp/health-0f8fad5bd9cb469fa16570867728950e.yaml''"
    and rf': "startTime r' = Some 1"
    by (simp_all add: r r' test_reporter_def)
  show ?thesis
    by (simp add: s s' q q' w w' rf rf' show_nat_small)
qed

text \<open>
  C10. \<^verbatim>\<open>stop\<close> returns the reporter as it was, its status included: the
  shutdown code goes into the written record only. So two calls of \<^verbatim>\<open>stop\<close> from
  the healthy code leave the status healthy and both write the shutdown code.
\<close>

theorem stop_keeps_status:
  "fst (stop r w) = r \<and>
   (status r = STATUS_HEALTHY \<longrightarrow>
      status (fst (run [Stop, Stop] (r, w))) = STATUS_HEALTHY \<and>
      map (\<lambda>q. yaml_lines q ! 2) (writes_since w (snd (run [Stop, Stop] (r, w)))) =
        [''last_error: NR-APM-099'', ''last_error: NR-APM-099''])"
proof -
  have "yaml_lines \<lparr>w_file = f, w_data = status_yaml True STATUS_AGENT_SHUTDOWN
            (Some ''Agent has shutdown.'') st t, w_encoding = ''utf8''\<rparr> ! 2 =
          ''last_error: NR-APM-099''" for f st t
    by (simp add: yaml_lines_def split_on_status_yaml STATUS_AGENT_SHUTDOWN_def)
  then show ?thesis
    by (simp add: fst_stop run_def stop_eq writeStatus_eq clearInterval_frame writes_since_def)
qed

theorem stop_keeps_status_witness:
  "fst (stop test_reporter test_started) = test_reporter \<and>
   status (fst (run [Stop, Stop] (test_reporter, test_started))) = ''NR-APM-000'' \<and>
   map (\<lambda>q. yaml_lines q ! 2)
     (writes_since test_started (snd (run [Stop, Stop] (test_reporter, test_started)))) =
     [''last_error: NR-APM-099'', ''last_error: NR-APM-099'']"
proof -
  have h: "status test_reporter = STATUS_HEALTHY"
    by (simp add: test_reporter_def STATUS_HEALTHY_def)
  from stop_keeps_status [of test_reporter test_started] h show ?thesis
    by (simp add: STATUS_HEALTHY_def)
qed

text \<open>
  C1. After a construction that ended early (no fleet identifier, or no output
  directory) \<^verbatim>\<open>stop\<close> leaves the timers alone, but it is not without effect:
  it calls \<^verbatim>\<open>fs.writeFile\<close> with an undefined path and a record of the shutdown
  whose start time is \<^verbatim>\<open>undefined\<close>.
\<close>

theorem stop_after_short_circuit:
  assumes "falsy (FLEET_ID e) \<or> HEALTH_DELIVERY_LOCATION e = None"
    and "construct e u w0 = (r, w)"
  shows "interval r = None \<and> destFile r = None \<and> writes w = writes w0 \<and>
         timers (snd (stop r w)) = timers w \<and>
         writes (snd (stop r w)) =
           writes w @
           [\<lparr>w_file = None,
             w_data = join_with [CHR 0x0A]
               [''healthy: true'',
                ''status: '' @ [CHR 0x27] @ ''Agent has shutdown.'' @ [CHR 0x27],
                ''last_error: NR-APM-099'',
                ''start_time_unix_nano: undefined'',
                ''status_time_unix_nano: '' @ show_nat (hrtime w (reads w))],
             w_encoding = ''utf8''\<rparr>]"
proof -
  from assms have "r = new_reporter \<and> (\<exists>l m. w = logger l m w0)"
    using construct_early [of e u w0] by (cases "falsy (FLEET_ID e)") auto
  then show ?thesis
    by (auto simp: new_reporter_def logger_def stop_eq writeStatus_eq status_yaml_def
        template_bool_def STATUS_AGENT_SHUTDOWN_def)
qed

theorem stop_after_short_circuit_witness:
  "(let (r, w) = construct (test_env\<lparr>FLEET_ID := None\<rparr>) test_uuid test_world
    in interval r = None \<and> destFile r = None \<and> writes w = [] \<and>
       timers (snd (stop r w)) = [] \<and>
       writes (snd (stop r w)) =
         [\<lparr>w_file = None,
           w_data = join_with [CHR 0x0A]
             [''healthy: true'',
              ''status: '' @ [CHR 0x27] @ ''Agent has shutdown.'' @ [CHR 0x27],
              ''last_error: NR-APM-099'',
              ''start_time_unix_nano: undefined'',
              ''status_time_unix_nano: 1''],
           w_encoding = ''utf8''\<rparr>])"
proof -
  let ?e = "test_env\<lparr>FLEET_ID := None\<rparr>"
  obtain r w where s: "construct ?e test_uuid test_world = (r, w)"
    by (cases "construct ?e test_uuid test_world")
  have e: "falsy (FLEET_ID ?e) \<or> HEALTH_DELIVERY_LOCATION ?e = None"
    by simp
  from s have w: "timers w = []" "hrtime w (reads w) = 1"
    by (auto simp: construct_def test_world_def world0_def logger_def)
  from stop_after_short_circuit [OF e s] show ?thesis
    by (simp add: s w test_world_fields show_nat_small)
qed

section \<open>Timestamps\<close>

text \<open>
  C8. For one reporter whose construction got past its checks, and a clock that never
  goes back: the start time is the one reading the constructor took; every record
  written afterwards, by a tick or by \<^verbatim>\<open>stop\<close>, carries that same start time; the
  \<open>k\<close>-th record carries the \<open>k\<close>-th reading of the clock after the constructor's
  as its status time, so each write reads the clock afresh and the status times never
  decrease from one write to the next.
\<close>

theorem timestamps_of_writes:
  assumes "\<not> falsy (FLEET_ID e)" and "HEALTH_DELIVERY_LOCATION e = Some d"
    and "mono (hrtime w0)" and "run ops (construct e u w0) = (r, w)"
  shows "startTime r = Some (hrtime w0 (reads w0)) \<and>
         (\<forall>q \<in> set (writes_since w0 w).
            yaml_lines q ! 3 = ''start_time_unix_nano: '' @ show_nat (hrtime w0 (reads w0))) \<and>
         map (\<lambda>q. yaml_lines q ! 4) (writes_since w0 w) =
           map (\<lambda>k. ''status_time_unix_nano: '' @ show_nat (hrtime w0 k))
             [Suc (reads w0) ..< reads w] \<and>
         length (writes_since w0 w) = reads w - Suc (reads w0) \<and>
         sorted (map (hrtime w0) [Suc (reads w0) ..< reads w])"
proof -
  obtain r1 w1 where c: "construct e u w0 = (r1, w1)"
    by (cases "construct e u w0")
  from construct_started [OF assms(1,2), of u w0] c
  have r1: "status r1 = STATUS_HEALTHY" "startTime r1 = Some (hrtime w0 (reads w0))"
    and w1: "hrtime w1 = hrtime w0" "reads w1 = Suc (reads w0)" "writes w1 = writes w0"
    by simp_all
  from r1(1) have v: "VALID_CODES_has (status r1)"
    by (simp add: VALID_CODES_has_HEALTHY)
  from run_writes [OF v, of ops w1] assms(4) c obtain new where
    n: "writes w = writes w1 @ new" "reads w = reads w1 + length new"
      "\<forall>q \<in> set new. yaml_lines q ! 3 = ''start_time_unix_nano: '' @ template_num (startTime r1)"
      "map (\<lambda>q. yaml_lines q ! 4) new =
         map (\<lambda>k. ''status_time_unix_nano: '' @ show_nat (hrtime w1 k))
           [reads w1 ..< reads w1 + length new]"
    by auto
  have since: "writes_since w0 w = new"
    by (simp add: writes_since_def n(1) w1(3))
  have "startTime r = Some (hrtime w0 (reads w0))"
    using frame_run(3) [of ops "(r1, w1)"] assms(4) c r1(2) by simp
  moreover have "\<forall>q \<in> set (writes_since w0 w).
      yaml_lines q ! 3 = ''start_time_unix_nano: '' @ show_nat (hrtime w0 (reads w0))"
    using n(3) by (simp add: since r1(2))
  moreover have "map (\<lambda>q. yaml_lines q ! 4) (writes_since w0 w) =
      map (\<lambda>k. ''status_time_unix_nano: '' @ show_nat (hrtime w0 k)) [Suc (reads w0) ..< reads w]"
    using n(4) by (simp add: since w1 n(2))
  moreover have "length (writes_since w0 w) = reads w - Suc (reads w0)"
    by (simp add: since n(2) w1(2))
  moreover have "sorted (map (hrtime w0) [Suc (reads w0) ..< reads w])"
    using assms(3) by (rule sorted_map_mono)
  ultimately show ?thesis by blast
qed

theorem timestamps_of_writes_witness:
  "mono Suc \<and>
   (let (r, w) = run [Tick, SetStatus STATUS_BACKEND_ERROR, Stop]
                   (construct test_env test_uuid test_world)
    in startTime r = Some 1 \<and>
       length (writes_since test_world w) = 2 \<and>
       list_all (\<lambda>q. yaml_lines q ! 3 = ''start_time_unix_nano: 1'') (writes_since test_world w) \<and>
       map (\<lambda>q. yaml_lines q ! 4) (writes_since test_world w) =
         [''status_time_unix_nano: 2'', ''status_time_unix_nano: 3''])"
proof -
  let ?ops = "[Tick, SetStatus STATUS_BACKEND_ERROR, Stop]"
  obtain r w where s: "run ?ops (construct test_env test_uuid test_world) = (r, w)"
    by (cases "run ?ops (construct test_env test_uuid test_world)")
  have e: "\<not> falsy (FLEET_ID test_env)" "HEALTH_DELIVERY_LOCATION test_env = Some ''/tmp''"
    by (simp_all add: test_env_def)
  have m: "mono (hrtime test_world)"
    by (simp add: test_world_def world0_def mono_def)
  from s have w: "reads w = 3"
    by (auto simp: test_eval)
  have up: "[Suc 0 ..< 3] = [1, 2]"
    by (simp add: upt_rec)
  from timestamps_of_writes [OF e m s] show ?thesis
    by (simp add: s w up list_all_iff test_world_fields show_nat_small mono_def)
qed

end
